theory Spec2Isabelle
  imports Main
begin

section \<open>The ABI data model\<close>

text \<open>
  The generator of \<^verbatim>\<open>abi-generator.ts\<close> reads a contract ABI (a JSON array of items)
  and builds TypeScript declarations as text. The types below follow the TypeScript
  declarations the file imports: an optional member \<^verbatim>\<open>m?: T\<close> is a \<open>T option\<close>,
  \<open>None\<close> being JavaScript's \<^verbatim>\<open>undefined\<close>. The name of an item is optional as well:
  a constructor has none, and the generator reads \<^verbatim>\<open>abiItem.name\<close> without a check.
\<close>

datatype AbiInput =
  AbiInput (input_name: string) (input_type: string) (indexed: "bool option")
           (components: "AbiInput list option")

datatype AbiOutput =
  AbiOutput (output_name: string) (output_type: string)
            (output_components: "AbiOutput list option")

text \<open>
  Modelled from the spec: the enumeration \<^verbatim>\<open>AbiItemType\<close> (its declaration is imported,
  not part of the file): the variants constructor, function and event, and every other tag,
  which the generator ignores. \<open>AbiItemType_text\<close> is the tag's text, as a template
  literal prints it.
\<close>

datatype AbiItemType =
  AbiItemType_constructor | AbiItemType_function | AbiItemType_event | AbiItemType_other string

fun AbiItemType_text :: "AbiItemType \<Rightarrow> string" where
  "AbiItemType_text AbiItemType_constructor = ''constructor''"
| "AbiItemType_text AbiItemType_function = ''function''"
| "AbiItemType_text AbiItemType_event = ''event''"
| "AbiItemType_text (AbiItemType_other t) = t"

record AbiItem =
  item_type :: AbiItemType
  item_name :: "string option"
  inputs :: "AbiInput list option"
  outputs :: "AbiOutput list option"
  payable :: "bool option"
  constant_flag :: "bool option"
  stateMutability :: "string option"

text \<open>
  The provider of the context is typed as the enumeration \<^verbatim>\<open>Provider\<close>, with the members
  \<^verbatim>\<open>web3\<close> and \<^verbatim>\<open>ethers\<close>; at run time the field holds whatever the configuration gave,
  which the \<^verbatim>\<open>default\<close> branches of the generator's switches handle.
\<close>

datatype Provider = web3 | ethers | unsupported string

fun Provider_text :: "Provider \<Rightarrow> string" where
  "Provider_text web3 = ''web3''"
| "Provider_text ethers = ''ethers''"
| "Provider_text (unsupported p) = p"

text \<open>The options object of the formatter; the generator itself writes only \<open>parser\<close>.\<close>

record Options =
  parser :: "string option"
  trailingComma :: "string option"
  singleQuote :: "bool option"
  bracketSpacing :: "bool option"
  printWidth :: "nat option"

record GeneratorContext =
  abiFileLocation :: string
  outputPathDirectory :: "string option"
  name :: "string option"
  provider :: Provider
  prettierOptions :: "Options option"
  watch :: bool

text \<open>
  What \<^verbatim>\<open>JSON.parse\<close> can return. An array carries its elements as the items the
  annotation \<^verbatim>\<open>const result: AbiItem[]\<close> declares them to be; the annotation is not
  checked at run time, so every other JSON value reaches the generator as well.
\<close>

datatype json =
  JArray "AbiItem list"
| JObject "(string \<times> json) list"
| JString string
| JNumber int
| JBool bool
| JNull

datatype error =
  OutputPathNotDirectory
| AbiFileNotFound string
| AbiNotJsonFile string
| ProviderNotSupported Provider
| TypeError
| FormatError

record GenerateResponse =
  outputLocation :: string
  abiJsonFileLocation :: string

section \<open>The generator instance and the world it runs in\<close>

text \<open>
  The private fields of the class \<^verbatim>\<open>AbiGenerator\<close>. The context is the caller's object,
  which the generator mutates in place; the three lists are the accumulators. The names are
  pushed as the items have them, so an absent name is pushed as \<^verbatim>\<open>undefined\<close>.
\<close>

record AbiGenerator =
  p_context :: GeneratorContext
  p_parametersAndReturnTypeInterfaces :: "string list"
  p_events :: "string option list"
  p_methodNames :: "string option list"

datatype io_event =
  ExistsSync string | LstatSync string | ReadFileSync string | WriteFileSync string
| Watch string

record World =
  files :: "string \<rightharpoonup> string"
  directories :: "string list"
  io_log :: "io_event list"
  watchers :: "string list"
  console :: "string list"

text \<open>
  The functions the file imports and does not define: the helpers of the repository
  (\<^verbatim>\<open>Helpers\<close>, \<^verbatim>\<open>TypeScriptHelpers\<close>, the two provider factories, the tag
  \<^verbatim>\<open>SolidityType.tuple\<close>) and the libraries (\<^verbatim>\<open>path\<close>, \<^verbatim>\<open>JSON\<close>, \<^verbatim>\<open>prettier\<close>).
  They are parameters of the model. \<open>JSON_parse\<close> and \<open>prettier_format\<close> return \<open>None\<close>
  where the library throws. \<open>capitalize\<close> takes what the generator passes, which is
  \<^verbatim>\<open>undefined\<close> for the name of an item without a name, and \<open>buildType\<close> takes the names
  as they were pushed. \<open>arrayLikeItems\<close> stands for JavaScript's reading of an object that
  has a member \<^verbatim>\<open>length\<close> (see \<open>abiItemsRead\<close> below).
\<close>

record Imports =
  capitalize :: "string option \<Rightarrow> string"
  getSolidityTsType :: "string \<Rightarrow> string"
  buildInterface :: "string \<Rightarrow> string \<Rightarrow> string"
  buildType :: "string \<Rightarrow> string option list \<Rightarrow> string"
  SolidityType_tuple :: string
  web3_buildWeb3Interfaces :: "string \<Rightarrow> string"
  web3_buildEventInterfaceProperties :: "AbiItem list \<Rightarrow> string"
  web3_buildMethodReturnContext :: "string \<Rightarrow> AbiItem \<Rightarrow> string"
  ethers_buildEthersInterfaces :: "string \<Rightarrow> string"
  ethers_buildEventInterfaceProperties :: "AbiItem list \<Rightarrow> string"
  ethers_buildMethodReturnContext :: "string \<Rightarrow> AbiItem \<Rightarrow> string"
  path_resolve :: "string \<Rightarrow> string"
  path_dirname :: "string \<Rightarrow> string"
  path_basename :: "string \<Rightarrow> string"
  JSON_parse :: "string \<Rightarrow> json option"
  arrayLikeItems :: "(string \<times> json) list \<Rightarrow> AbiItem list option"
  prettier_format :: "string \<Rightarrow> Options \<Rightarrow> string option"

section \<open>Strings\<close>

text \<open>The decimal text of an index, as the template \<^verbatim>\<open>`parameter${i}`\<close> prints it.\<close>

fun digit_char :: "nat \<Rightarrow> char" where
  "digit_char n = (''0123456789'' ! (n mod 10))"

fun string_of_nat :: "nat \<Rightarrow> string" where
  "string_of_nat n =
     (if n < 10 then [digit_char n] else string_of_nat (n div 10) @ [digit_char n])"

text \<open>\<^verbatim>\<open>s.split(c)\<close> for a one-character separator: the result is never empty.\<close>

fun split_on :: "char \<Rightarrow> string \<Rightarrow> string list" where
  "split_on c [] = [[]]"
| "split_on c (x # xs) =
     (if x = c then [] # split_on c xs
      else (case split_on c xs of
              [] \<Rightarrow> [[x]]
            | y # ys \<Rightarrow> (x # y) # ys))"

text \<open>How a template literal prints an optional boolean and an optional string.\<close>

fun bool_text :: "bool option \<Rightarrow> string" where
  "bool_text None = ''undefined''"
| "bool_text (Some True) = ''true''"
| "bool_text (Some False) = ''false''"

fun string_text :: "string option \<Rightarrow> string" where
  "string_text None = ''undefined''"
| "string_text (Some s) = s"

text \<open>JavaScript's truthiness of an optional string: \<^verbatim>\<open>undefined\<close> and \<^verbatim>\<open>''\<close> are falsy.\<close>

fun truthy :: "string option \<Rightarrow> bool" where
  "truthy None = False"
| "truthy (Some s) = (s \<noteq> [])"

section \<open>The context\<close>

text \<open>\<^verbatim>\<open>s.replace(/\'/g, '')\<close>: every single quote is removed.\<close>

definition clearQuotes :: "string \<Rightarrow> string" where
  "clearQuotes s = filter (\<lambda>c. c \<noteq> CHR 0x27) s"

definition clearAllQuotesFromContextInfo :: "AbiGenerator \<Rightarrow> AbiGenerator" where
  "clearAllQuotesFromContextInfo g =
     (let c = p_context g;
          c1 = c\<lparr>abiFileLocation := clearQuotes (abiFileLocation c)\<rparr>;
          c2 = (if truthy (outputPathDirectory c1)
                then c1\<lparr>outputPathDirectory := map_option clearQuotes (outputPathDirectory c1)\<rparr>
                else c1)
      in g\<lparr>p_context := c2\<rparr>)"

definition clearState :: "AbiGenerator \<Rightarrow> AbiGenerator" where
  "clearState g =
     g\<lparr>p_parametersAndReturnTypeInterfaces := [], p_events := [], p_methodNames := []\<rparr>"

definition buildExecutingPath :: "Imports \<Rightarrow> string \<Rightarrow> string" where
  "buildExecutingPath E joinPath = path_resolve E joinPath"

definition getAbiFileFullPathLocation :: "Imports \<Rightarrow> AbiGenerator \<Rightarrow> string" where
  "getAbiFileFullPathLocation E g = buildExecutingPath E (abiFileLocation (p_context g))"

definition getOutputPathDirectory :: "Imports \<Rightarrow> AbiGenerator \<Rightarrow> string" where
  "getOutputPathDirectory E g =
     (if truthy (outputPathDirectory (p_context g))
      then string_text (outputPathDirectory (p_context g))
      else path_dirname E (getAbiFileFullPathLocation E g))"

definition getAbiFileLocationRawName :: "Imports \<Rightarrow> AbiGenerator \<Rightarrow> string" where
  "getAbiFileLocationRawName E g =
     (case split_on CHR ''.'' (path_basename E (abiFileLocation (p_context g))) of
        [] \<Rightarrow> []
      | s # _ \<Rightarrow> s)"

definition formatAbiName :: "Imports \<Rightarrow> string \<Rightarrow> string" where
  "formatAbiName E n =
     concat (map (\<lambda>v. capitalize E (Some v))
       (split_on CHR ''.''
          (concat (map (\<lambda>v. capitalize E (Some v)) (split_on CHR ''-'' n)))))"

definition getAbiName :: "Imports \<Rightarrow> AbiGenerator \<Rightarrow> string" where
  "getAbiName E g =
     (if truthy (name (p_context g))
      then formatAbiName E (string_text (name (p_context g)))
      else formatAbiName E (getAbiFileLocationRawName E g))"

definition buildOutputLocation :: "Imports \<Rightarrow> AbiGenerator \<Rightarrow> string" where
  "buildOutputLocation E g =
     (let n = (if truthy (name (p_context g)) then string_text (name (p_context g))
               else getAbiFileLocationRawName E g);
          outputPathDirectory = getOutputPathDirectory E g
      in if drop (length outputPathDirectory - 1) outputPathDirectory = ''/''
         then outputPathDirectory @ n @ ''.ts''
         else buildExecutingPath E (outputPathDirectory @ ''/'' @ n @ ''.ts''))"

text \<open>
  \<^verbatim>\<open>getPrettierOptions\<close> writes the parser into the caller's options object before it
  returns it; the updated instance is returned with the options.
\<close>

definition getDefaultPrettierOptions :: Options where
  "getDefaultPrettierOptions =
     \<lparr>parser = Some ''typescript'', trailingComma = Some ''es5'', singleQuote = Some True,
      bracketSpacing = Some True, printWidth = Some 80\<rparr>"

definition getPrettierOptions :: "AbiGenerator \<Rightarrow> Options \<times> AbiGenerator" where
  "getPrettierOptions g =
     (case prettierOptions (p_context g) of
        Some po \<Rightarrow>
          (let po' = po\<lparr>parser := Some ''typescript''\<rparr>
           in (po', g\<lparr>p_context := (p_context g)\<lparr>prettierOptions := Some po'\<rparr>\<rparr>))
      | None \<Rightarrow> (getDefaultPrettierOptions, g))"

section \<open>The builders of the typed interface\<close>

text \<open>
  A builder that can throw, or that writes the accumulators, returns its result together
  with the instance as it has left it: after a throw the instance keeps what was written
  before.
\<close>

definition buildMethodReturnContext ::
  "Imports \<Rightarrow> AbiGenerator \<Rightarrow> string \<Rightarrow> AbiItem \<Rightarrow> error + string" where
  "buildMethodReturnContext E g ty abiItem =
     (case provider (p_context g) of
        web3 \<Rightarrow> Inr (web3_buildMethodReturnContext E ty abiItem)
      | ethers \<Rightarrow> Inr (ethers_buildMethodReturnContext E ty abiItem)
      | unsupported p \<Rightarrow> Inl (ProviderNotSupported (unsupported p)))"

text \<open>The loop of \<^verbatim>\<open>buildTupleParametersInterface\<close> over the components.\<close>

fun tupleProperties :: "Imports \<Rightarrow> AbiInput list \<Rightarrow> string \<Rightarrow> string" where
  "tupleProperties E [] properties = properties"
| "tupleProperties E (c # cs) properties =
     tupleProperties E cs
       (properties @ input_name c @ '': '' @ getSolidityTsType E (input_type c) @ '';'')"

text \<open>
  \<^verbatim>\<open>abiInput.components!.length\<close> throws a TypeError when the input has no components.
\<close>

definition buildTupleParametersInterface ::
  "Imports \<Rightarrow> string option \<Rightarrow> AbiInput \<Rightarrow> AbiGenerator
     \<Rightarrow> (error + string) \<times> AbiGenerator" where
  "buildTupleParametersInterface E nm abiInput g =
     (let interfaceName = capitalize E nm @ ''Request''
      in case components abiInput of
           None \<Rightarrow> (Inl TypeError, g)
         | Some cs \<Rightarrow>
             (let properties = tupleProperties E cs []
              in (Inr interfaceName,
                  g\<lparr>p_parametersAndReturnTypeInterfaces :=
                      p_parametersAndReturnTypeInterfaces g
                        @ [buildInterface E interfaceName properties]\<rparr>)))"

text \<open>The loop of \<^verbatim>\<open>buildParameters\<close>: \<open>i\<close> is the index, \<open>input\<close> the text so far.\<close>

fun buildParameters_loop ::
  "Imports \<Rightarrow> string option \<Rightarrow> nat \<Rightarrow> AbiInput list \<Rightarrow> string \<Rightarrow> AbiGenerator
     \<Rightarrow> (error + string) \<times> AbiGenerator" where
  "buildParameters_loop E nm i [] input g = (Inr input, g)"
| "buildParameters_loop E nm i (x # xs) input g =
     (let input1 = (if length input > 1 then input @ '', '' else input);
          inputName = (if length (input_name x) = 0 then ''parameter'' @ string_of_nat i
                       else input_name x)
      in if input_type x = SolidityType_tuple E
         then (case buildTupleParametersInterface E nm x g of
                 (Inl e, g') \<Rightarrow> (Inl e, g')
               | (Inr r, g') \<Rightarrow>
                   buildParameters_loop E nm (Suc i) xs (input1 @ inputName @ '': '' @ r) g')
         else buildParameters_loop E nm (Suc i) xs
                (input1 @ inputName @ '': '' @ getSolidityTsType E (input_type x)) g)"

definition buildParameters ::
  "Imports \<Rightarrow> AbiItem \<Rightarrow> AbiGenerator \<Rightarrow> (error + string) \<times> AbiGenerator" where
  "buildParameters E abiItem g =
     (case inputs abiItem of
        None \<Rightarrow> (Inr (''('' @ '')''), g)
      | Some ins \<Rightarrow>
          (case buildParameters_loop E (item_name abiItem) 0 ins ''('' g of
             (Inl e, g') \<Rightarrow> (Inl e, g')
           | (Inr input, g') \<Rightarrow> (Inr (input @ '')''), g')))"

text \<open>The callback of \<^verbatim>\<open>abiItem.outputs.map\<close>, which appends one field per output.\<close>

fun outputProperties :: "Imports \<Rightarrow> AbiOutput list \<Rightarrow> string \<Rightarrow> string" where
  "outputProperties E [] ouputProperties = ouputProperties"
| "outputProperties E (out # outs) ouputProperties =
     outputProperties E outs
       (ouputProperties @ output_name out @ '': ''
          @ getSolidityTsType E (output_type out) @ '';'')"

definition buildPropertyReturnTypeInterface ::
  "Imports \<Rightarrow> AbiItem \<Rightarrow> AbiGenerator \<Rightarrow> (error + string) \<times> AbiGenerator" where
  "buildPropertyReturnTypeInterface E abiItem g =
     (case outputs abiItem of
        None \<Rightarrow> (buildMethodReturnContext E g ''void'' abiItem, g)
      | Some [] \<Rightarrow> (buildMethodReturnContext E g ''void'' abiItem, g)
      | Some [out] \<Rightarrow>
          (buildMethodReturnContext E g (getSolidityTsType E (output_type out)) abiItem, g)
      | Some outs \<Rightarrow>
          (let interfaceName = capitalize E (item_name abiItem) @ ''Response'';
               ouputProperties = outputProperties E outs [];
               g' = g\<lparr>p_parametersAndReturnTypeInterfaces :=
                        p_parametersAndReturnTypeInterfaces g
                          @ [buildInterface E interfaceName ouputProperties]\<rparr>
           in (buildMethodReturnContext E g' interfaceName abiItem, g')))"

definition buildParametersAndReturnTypes ::
  "Imports \<Rightarrow> AbiItem \<Rightarrow> AbiGenerator \<Rightarrow> (error + string) \<times> AbiGenerator" where
  "buildParametersAndReturnTypes E abiItem g =
     (case buildParameters E abiItem g of
        (Inl e, g') \<Rightarrow> (Inl e, g')
      | (Inr parameters, g') \<Rightarrow>
          (case buildPropertyReturnTypeInterface E abiItem g' of
             (Inl e, g'') \<Rightarrow> (Inl e, g'')
           | (Inr r, g'') \<Rightarrow> (Inr (parameters @ r), g'')))"

text \<open>The documentation comment of one item; \<open>i\<close> is the index of the loop.\<close>

fun paramsDocs_loop :: "nat \<Rightarrow> AbiInput list \<Rightarrow> string \<Rightarrow> string" where
  "paramsDocs_loop i [] paramsDocs = paramsDocs"
| "paramsDocs_loop i (x # xs) paramsDocs =
     (let inputName = (if length (input_name x) = 0 then ''parameter'' @ string_of_nat i
                       else input_name x)
      in paramsDocs_loop (Suc i) xs
           (paramsDocs @ [CHR 0x0D, CHR 0x0A] @ ''* @param '' @ inputName @ '' Type: ''
              @ input_type x @ '', Indexed: ''
              @ (if indexed x = Some True then ''true'' else ''false'')))"

definition buildInterfacePropertyDocs :: "AbiItem \<Rightarrow> string" where
  "buildInterfacePropertyDocs abiItem =
     (let paramsDocs = (case inputs abiItem of None \<Rightarrow> [] | Some ins \<Rightarrow> paramsDocs_loop 0 ins [])
      in [CHR 0x0A] @ ''         /**'' @ [CHR 0x0A]
         @ ''            * Payable: '' @ bool_text (payable abiItem) @ [CHR 0x0A]
         @ ''            * Constant: '' @ bool_text (constant_flag abiItem) @ [CHR 0x0A]
         @ ''            * StateMutability: '' @ string_text (stateMutability abiItem) @ [CHR 0x0A]
         @ ''            * Type: '' @ AbiItemType_text (item_type abiItem) @ '' '' @ paramsDocs
         @ [CHR 0x0A] @ ''          */'' @ [CHR 0x0A] @ ''        '')"

text \<open>The loop of \<^verbatim>\<open>buildAbiInterface\<close> over the items, \<open>properties\<close> the text so far.\<close>

fun buildAbiInterface_loop ::
  "Imports \<Rightarrow> AbiItem list \<Rightarrow> string \<Rightarrow> AbiGenerator \<Rightarrow> (error + string) \<times> AbiGenerator" where
  "buildAbiInterface_loop E [] properties g = (Inr properties, g)"
| "buildAbiInterface_loop E (x # xs) properties g =
     (case item_type x of
        AbiItemType_constructor \<Rightarrow>
          (let properties1 = properties @ buildInterfacePropertyDocs x;
               g1 = g\<lparr>p_methodNames := p_methodNames g @ [Some ''new'']\<rparr>
           in case buildParametersAndReturnTypes E x g1 of
                (Inl e, g2) \<Rightarrow> (Inl e, g2)
              | (Inr r, g2) \<Rightarrow>
                  buildAbiInterface_loop E xs
                    (properties1 @ [CHR 0x27] @ ''new'' @ [CHR 0x27] @ r @ '';'') g2)
      | AbiItemType_function \<Rightarrow>
          (let properties1 = properties @ buildInterfacePropertyDocs x;
               g1 = g\<lparr>p_methodNames := p_methodNames g @ [item_name x]\<rparr>
           in case buildParametersAndReturnTypes E x g1 of
                (Inl e, g2) \<Rightarrow> (Inl e, g2)
              | (Inr r, g2) \<Rightarrow>
                  buildAbiInterface_loop E xs
                    (properties1 @ string_text (item_name x) @ r @ '';'') g2)
      | AbiItemType_event \<Rightarrow>
          buildAbiInterface_loop E xs properties (g\<lparr>p_events := p_events g @ [item_name x]\<rparr>)
      | AbiItemType_other t \<Rightarrow> buildAbiInterface_loop E xs properties g)"

definition buildAbiInterface ::
  "Imports \<Rightarrow> AbiItem list \<Rightarrow> AbiGenerator \<Rightarrow> (error + string) \<times> AbiGenerator" where
  "buildAbiInterface E abi g =
     (case buildAbiInterface_loop E abi [] g of
        (Inl e, g') \<Rightarrow> (Inl e, g')
      | (Inr properties, g') \<Rightarrow> (Inr (buildInterface E (getAbiName E g') properties), g'))"

section \<open>The full typings\<close>

definition buildMethodNamesType :: "Imports \<Rightarrow> AbiGenerator \<Rightarrow> string" where
  "buildMethodNamesType E g = buildType E (getAbiName E g @ ''MethodNames'') (p_methodNames g)"

fun concatInterfaces :: "string list \<Rightarrow> string \<Rightarrow> string" where
  "concatInterfaces [] objectOutputReturnType = objectOutputReturnType"
| "concatInterfaces (typeInterface # rest) objectOutputReturnType =
     concatInterfaces rest (objectOutputReturnType @ typeInterface)"

definition buildParametersAndReturnTypeInterfaces :: "AbiGenerator \<Rightarrow> string" where
  "buildParametersAndReturnTypeInterfaces g =
     concatInterfaces (p_parametersAndReturnTypeInterfaces g) []"

definition buildEventsType :: "Imports \<Rightarrow> AbiGenerator \<Rightarrow> string" where
  "buildEventsType E g = buildType E (getAbiName E g @ ''Events'') (p_events g)"

definition buildEventsInterface :: "Imports \<Rightarrow> AbiGenerator \<Rightarrow> AbiItem list \<Rightarrow> error + string" where
  "buildEventsInterface E g abiItems =
     (let eventsInterfaceName = getAbiName E g @ ''EventsContext''
      in case provider (p_context g) of
           web3 \<Rightarrow>
             Inr (buildInterface E eventsInterfaceName
                    (web3_buildEventInterfaceProperties E abiItems))
         | ethers \<Rightarrow>
             Inr (buildInterface E eventsInterfaceName
                    (ethers_buildEventInterfaceProperties E abiItems))
         | unsupported p \<Rightarrow> Inl (ProviderNotSupported (unsupported p)))"

definition buildFullTypings ::
  "Imports \<Rightarrow> AbiGenerator \<Rightarrow> AbiItem list \<Rightarrow> string \<Rightarrow> error + string" where
  "buildFullTypings E g abi abiTypedInterface =
     (case (case provider (p_context g) of
              web3 \<Rightarrow> Inr (web3_buildWeb3Interfaces E (getAbiName E g))
            | ethers \<Rightarrow> Inr (ethers_buildEthersInterfaces E (getAbiName E g))
            | unsupported p \<Rightarrow> Inl (ProviderNotSupported (unsupported p))) of
        Inl e \<Rightarrow> Inl e
      | Inr typings \<Rightarrow>
          (case buildEventsInterface E g abi of
             Inl e \<Rightarrow> Inl e
           | Inr eventsInterface \<Rightarrow>
               Inr (typings @ buildEventsType E g @ eventsInterface
                    @ buildMethodNamesType E g
                    @ buildParametersAndReturnTypeInterfaces g
                    @ abiTypedInterface)))"

section \<open>File access\<close>

text \<open>
  The file system is a map from paths to file contents and a list of directories; every
  call of \<^verbatim>\<open>fs\<close> is recorded in \<open>io_log\<close>, in the order of the calls.
\<close>

definition existsSync :: "World \<Rightarrow> string \<Rightarrow> bool \<times> World" where
  "existsSync w p =
     (files w p \<noteq> None \<or> p \<in> set (directories w), w\<lparr>io_log := io_log w @ [ExistsSync p]\<rparr>)"

definition lstatSync_isDirectory :: "World \<Rightarrow> string \<Rightarrow> bool \<times> World" where
  "lstatSync_isDirectory w p =
     (p \<in> set (directories w), w\<lparr>io_log := io_log w @ [LstatSync p]\<rparr>)"

definition isDirectory :: "World \<Rightarrow> string \<Rightarrow> bool \<times> World" where
  "isDirectory w pathValue =
     (case existsSync w pathValue of
        (False, w1) \<Rightarrow> (False, w1)
      | (True, w1) \<Rightarrow> lstatSync_isDirectory w1 pathValue)"

definition readFileSync :: "World \<Rightarrow> string \<Rightarrow> string option \<times> World" where
  "readFileSync w p = (files w p, w\<lparr>io_log := io_log w @ [ReadFileSync p]\<rparr>)"

definition writeFileSync :: "World \<Rightarrow> string \<Rightarrow> string \<Rightarrow> World" where
  "writeFileSync w p content =
     w\<lparr>files := (files w)(p \<mapsto> content), io_log := io_log w @ [WriteFileSync p]\<rparr>"

text \<open>
  \<^verbatim>\<open>getAbiJson\<close>: the read and the parse are in one \<^verbatim>\<open>try\<close>, so a path that cannot
  be read as a file and a text that does not parse give the same error.
\<close>

definition getAbiJson :: "Imports \<Rightarrow> AbiGenerator \<Rightarrow> World \<Rightarrow> (error + json) \<times> World" where
  "getAbiJson E g w =
     (let abiFileFullPath = getAbiFileFullPathLocation E g
      in case existsSync w abiFileFullPath of
           (False, w1) \<Rightarrow> (Inl (AbiFileNotFound abiFileFullPath), w1)
         | (True, w1) \<Rightarrow>
             (case readFileSync w1 abiFileFullPath of
                (None, w2) \<Rightarrow> (Inl (AbiNotJsonFile abiFileFullPath), w2)
              | (Some content, w2) \<Rightarrow>
                  (case JSON_parse E content of
                     None \<Rightarrow> (Inl (AbiNotJsonFile abiFileFullPath), w2)
                   | Some result \<Rightarrow> (Inr result, w2))))"

text \<open>
  What the loops \<^verbatim>\<open>for (let i = 0; i < abi.length; i++)\<close> with \<^verbatim>\<open>abi[i].type\<close> read of the
  value that \<^verbatim>\<open>getAbiJson\<close> returned. An array gives its items. Reading \<^verbatim>\<open>length\<close> of
  \<^verbatim>\<open>null\<close> throws. A number, a boolean and an object with no member \<^verbatim>\<open>length\<close> have
  the length \<^verbatim>\<open>undefined\<close>, and \<^verbatim>\<open>0 < undefined\<close> is false; the characters of a string
  have no \<^verbatim>\<open>type\<close>, so no case of the switch applies to them: in all these cases the
  loops see no item. An object with a member \<^verbatim>\<open>length\<close> is read as JavaScript reads an
  array-like object: the member is converted to a number and compared, and the members named
  by the indices are taken as items. The model does not fix that reading: it is the parameter
  \<open>arrayLikeItems\<close>, applied to the members in the order of the text, which gives the items
  that the loops see, or \<open>None\<close> where an access throws.
\<close>

fun abiItemsRead :: "Imports \<Rightarrow> json \<Rightarrow> error + AbiItem list" where
  "abiItemsRead E (JArray items) = Inr items"
| "abiItemsRead E JNull = Inl TypeError"
| "abiItemsRead E (JNumber n) = Inr []"
| "abiItemsRead E (JBool b) = Inr []"
| "abiItemsRead E (JString v) = Inr []"
| "abiItemsRead E (JObject members) =
     (if ''length'' \<in> set (map fst members)
      then (case arrayLikeItems E members of
              None \<Rightarrow> Inl TypeError
            | Some items \<Rightarrow> Inr items)
      else Inr [])"

section \<open>generate\<close>

text \<open>
  The first part of \<^verbatim>\<open>generate\<close> after the checks: the typed interface is built first
  (it is the argument of \<^verbatim>\<open>buildFullTypings\<close>), then the full typings.
\<close>

definition buildTypings ::
  "Imports \<Rightarrow> AbiItem list \<Rightarrow> AbiGenerator \<Rightarrow> (error + string) \<times> AbiGenerator" where
  "buildTypings E abi g =
     (case buildAbiInterface E abi g of
        (Inl e, g') \<Rightarrow> (Inl e, g')
      | (Inr abiTypedInterface, g') \<Rightarrow> (buildFullTypings E g' abi abiTypedInterface, g'))"

text \<open>
  The formatting: the configured options first, the default ones when the formatter throws;
  a throw of the second call leaves \<^verbatim>\<open>generate\<close>.
\<close>

definition formatTypings ::
  "Imports \<Rightarrow> string \<Rightarrow> AbiGenerator \<Rightarrow> World \<Rightarrow> (error + string) \<times> AbiGenerator \<times> World" where
  "formatTypings E fullTypings g w =
     (case getPrettierOptions g of
        (options, g') \<Rightarrow>
          (case prettier_format E fullTypings options of
             Some fullTypingsFormatted \<Rightarrow> (Inr fullTypingsFormatted, g', w)
           | None \<Rightarrow>
               (let w' = w\<lparr>console := console w
                           @ [''Your prettier options were not valid so falling back to default one.'',
                              []]\<rparr>
                in case prettier_format E fullTypings getDefaultPrettierOptions of
                     Some fullTypingsFormatted \<Rightarrow> (Inr fullTypingsFormatted, g', w')
                   | None \<Rightarrow> (Inl FormatError, g', w'))))"

definition watchForChanges :: "Imports \<Rightarrow> AbiGenerator \<Rightarrow> World \<Rightarrow> AbiGenerator \<times> World" where
  "watchForChanges E g w =
     (let g' = g\<lparr>p_context := (p_context g)\<lparr>watch := False\<rparr>\<rparr>;
          p = getAbiFileFullPathLocation E g'
      in (g', w\<lparr>watchers := watchers w @ [p], io_log := io_log w @ [Watch p]\<rparr>))"

text \<open>The last part of \<^verbatim>\<open>generate\<close>, from the write of the output file on.\<close>

definition writeTypings ::
  "Imports \<Rightarrow> string \<Rightarrow> AbiGenerator \<Rightarrow> World \<Rightarrow> GenerateResponse \<times> AbiGenerator \<times> World" where
  "writeTypings E fullTypingsFormatted g w =
     (let outputLocation = buildOutputLocation E g;
          w1 = writeFileSync w outputLocation fullTypingsFormatted;
          g1 = clearState g;
          (g2, w2) = (if watch (p_context g1) then watchForChanges E g1 w1 else (g1, w1))
      in (\<lparr>outputLocation = outputLocation,
           abiJsonFileLocation = getAbiFileFullPathLocation E g2\<rparr>, g2, w2))"

definition generate ::
  "Imports \<Rightarrow> AbiGenerator \<Rightarrow> World \<Rightarrow> (error + GenerateResponse) \<times> AbiGenerator \<times> World" where
  "generate E g w =
     (let g1 = clearAllQuotesFromContextInfo g
      in case isDirectory w (getOutputPathDirectory E g1) of
           (False, w1) \<Rightarrow> (Inl OutputPathNotDirectory, g1, w1)
         | (True, w1) \<Rightarrow>
             (case getAbiJson E g1 w1 of
                (Inl e, w2) \<Rightarrow> (Inl e, g1, w2)
              | (Inr result, w2) \<Rightarrow>
                  (case abiItemsRead E result of
                     Inl e \<Rightarrow> (Inl e, g1, w2)
                   | Inr abi \<Rightarrow>
                       (case buildTypings E abi g1 of
                          (Inl e, g2) \<Rightarrow> (Inl e, g2, w2)
                        | (Inr fullTypings, g2) \<Rightarrow>
                            (case formatTypings E fullTypings g2 w2 of
                               (Inl e, g3, w3) \<Rightarrow> (Inl e, g3, w3)
                             | (Inr fullTypingsFormatted, g3, w3) \<Rightarrow>
                                 (case writeTypings E fullTypingsFormatted g3 w3 of
                                    (r, g4, w4) \<Rightarrow> (Inr r, g4, w4)))))))"

section \<open>Runs of one instance\<close>

text \<open>
  The constructor: the context is the caller's, the accumulators are the empty arrays of the
  field initialisers.
\<close>

definition new_AbiGenerator :: "GeneratorContext \<Rightarrow> AbiGenerator" where
  "new_AbiGenerator c =
     \<lparr>p_context = c, p_parametersAndReturnTypeInterfaces = [], p_events = [],
      p_methodNames = []\<rparr>"

definition accumulatorsEmpty :: "AbiGenerator \<Rightarrow> bool" where
  "accumulatorsEmpty g =
     (p_parametersAndReturnTypeInterfaces g = [] \<and> p_events g = [] \<and> p_methodNames g = [])"

text \<open>
  Calls of \<^verbatim>\<open>generate\<close> on one instance, one after the other (by the caller, or by the
  watcher when the ABI file changes); each call finds the world of its time. For every call:
  the instance it starts from, its result, the instance it leaves.
\<close>

fun runs ::
  "Imports \<Rightarrow> AbiGenerator \<Rightarrow> World list
     \<Rightarrow> (AbiGenerator \<times> (error + GenerateResponse) \<times> AbiGenerator) list" where
  "runs E g [] = []"
| "runs E g (w # ws) =
     (case generate E g w of (r, g', w') \<Rightarrow> (g, r, g') # runs E g' ws)"

section \<open>Well-formed items\<close>

text \<open>
  The data model requires components of every input of the composite type; the generator
  reads the inputs of constructors and functions only.
\<close>

definition inputsWellFormed :: "Imports \<Rightarrow> AbiInput list \<Rightarrow> bool" where
  "inputsWellFormed E ins =
     list_all (\<lambda>x. input_type x = SolidityType_tuple E \<longrightarrow> components x \<noteq> None) ins"

definition itemWellFormed :: "Imports \<Rightarrow> AbiItem \<Rightarrow> bool" where
  "itemWellFormed E x =
     (case inputs x of None \<Rightarrow> True | Some ins \<Rightarrow> inputsWellFormed E ins)"

definition isCallable :: "AbiItem \<Rightarrow> bool" where
  "isCallable x = (item_type x = AbiItemType_constructor \<or> item_type x = AbiItemType_function)"

definition abiWellFormed :: "Imports \<Rightarrow> AbiItem list \<Rightarrow> bool" where
  "abiWellFormed E abi = list_all (itemWellFormed E) (filter isCallable abi)"

definition supported :: "Provider \<Rightarrow> bool" where
  "supported p = (p = web3 \<or> p = ethers)"

section \<open>What the builders compute\<close>

text \<open>The text of one field of a synthesized interface, and of a list of fields.\<close>

definition inputField :: "Imports \<Rightarrow> AbiInput \<Rightarrow> string" where
  "inputField E c = input_name c @ '': '' @ getSolidityTsType E (input_type c) @ '';''"

definition outputField :: "Imports \<Rightarrow> AbiOutput \<Rightarrow> string" where
  "outputField E out = output_name out @ '': '' @ getSolidityTsType E (output_type out) @ '';''"

definition componentsOf :: "AbiInput \<Rightarrow> AbiInput list" where
  "componentsOf x = (case components x of None \<Rightarrow> [] | Some cs \<Rightarrow> cs)"

definition requestInterface :: "Imports \<Rightarrow> string option \<Rightarrow> AbiInput \<Rightarrow> string" where
  "requestInterface E nm x =
     buildInterface E (capitalize E nm @ ''Request'') (concat (map (inputField E) (componentsOf x)))"

definition responseInterface :: "Imports \<Rightarrow> string option \<Rightarrow> AbiOutput list \<Rightarrow> string" where
  "responseInterface E nm outs =
     buildInterface E (capitalize E nm @ ''Response'') (concat (map (outputField E) outs))"

definition isTuple :: "Imports \<Rightarrow> AbiInput \<Rightarrow> bool" where
  "isTuple E x = (input_type x = SolidityType_tuple E)"

text \<open>The name and the type of the parameter at index \<open>i\<close> of an item named \<open>nm\<close>.\<close>

definition parameterName :: "nat \<Rightarrow> AbiInput \<Rightarrow> string" where
  "parameterName i x = (if input_name x = [] then ''parameter'' @ string_of_nat i else input_name x)"

definition parameterType :: "Imports \<Rightarrow> string option \<Rightarrow> AbiInput \<Rightarrow> string" where
  "parameterType E nm x =
     (if isTuple E x then capitalize E nm @ ''Request'' else getSolidityTsType E (input_type x))"

definition parameterText :: "Imports \<Rightarrow> string option \<Rightarrow> nat \<Rightarrow> AbiInput \<Rightarrow> string" where
  "parameterText E nm i x = parameterName i x @ '': '' @ parameterType E nm x"

fun joinWith :: "string \<Rightarrow> string list \<Rightarrow> string" where
  "joinWith sep [] = []"
| "joinWith sep [s] = s"
| "joinWith sep (s # t # ts) = s @ sep @ joinWith sep (t # ts)"

text \<open>The parameters of a list of inputs whose first element has the index \<open>i\<close>.\<close>

fun parameterTexts ::
  "Imports \<Rightarrow> string option \<Rightarrow> nat \<Rightarrow> AbiInput list \<Rightarrow> string list" where
  "parameterTexts E nm i [] = []"
| "parameterTexts E nm i (x # xs) = parameterText E nm i x # parameterTexts E nm (Suc i) xs"

text \<open>The names that one pass over the items collects.\<close>

definition methodNameOf :: "AbiItem \<Rightarrow> string option" where
  "methodNameOf x =
     (if item_type x = AbiItemType_constructor then Some ''new'' else item_name x)"

definition methodNamesOf :: "AbiItem list \<Rightarrow> string option list" where
  "methodNamesOf abi = map methodNameOf (filter isCallable abi)"

definition eventNamesOf :: "AbiItem list \<Rightarrow> string option list" where
  "eventNamesOf abi = map item_name (filter (\<lambda>x. item_type x = AbiItemType_event) abi)"

section \<open>Concrete imports and inputs\<close>

text \<open>
  Modelled from the spec: \<^verbatim>\<open>Helpers.capitalize\<close>, which is imported and not part of the
  file: the first character in upper case, the rest untouched (section 4.2). The spec says
  nothing of the argument \<^verbatim>\<open>undefined\<close>; this instance gives the text that a template
  literal prints for it.
\<close>

definition upper_char :: "char \<Rightarrow> char" where
  "upper_char c =
     (case map_of (zip ''abcdefghijklmnopqrstuvwxyz'' ''ABCDEFGHIJKLMNOPQRSTUVWXYZ'') c of
        None \<Rightarrow> c
      | Some u \<Rightarrow> u)"

fun sample_capitalize :: "string option \<Rightarrow> string" where
  "sample_capitalize None = ''undefined''"
| "sample_capitalize (Some []) = []"
| "sample_capitalize (Some (c # cs)) = upper_char c # cs"

text \<open>
  Modelled from the spec: \<^verbatim>\<open>TypeScriptHelpers.getSolidityTsType\<close>, which is imported and
  not part of the file (section 4.1): booleans, the tags mapped to strings, and the fallback
  for every other tag; the numeric and the array forms are left out of this instance.
\<close>

definition sample_getSolidityTsType :: "string \<Rightarrow> string" where
  "sample_getSolidityTsType t =
     (if t = ''bool'' then ''boolean''
      else if t = ''address'' \<or> t = ''string'' \<or> take 5 t = ''bytes'' then ''string''
      else ''any'')"

text \<open>
  Modelled from the spec: \<^verbatim>\<open>TypeScriptHelpers.buildInterface\<close> and
  \<^verbatim>\<open>TypeScriptHelpers.buildType\<close>, which are imported and not part of the file. The spec
  gives them as a named structural declaration with the given fields and a name type that
  enumerates the given names, and fixes no text; the text here is one possible choice.
\<close>

definition sample_buildInterface :: "string \<Rightarrow> string \<Rightarrow> string" where
  "sample_buildInterface n properties = ''export interface '' @ n @ '' {'' @ properties @ ''}''"

definition sample_buildType :: "string \<Rightarrow> string option list \<Rightarrow> string" where
  "sample_buildType n names =
     ''export type '' @ n @ '' = ''
       @ (if names = [] then ''undefined''
          else joinWith '' | '' (map (\<lambda>s. [CHR 0x27] @ string_text s @ [CHR 0x27]) names))
       @ '';''"

text \<open>
  Modelled from the spec: the two provider factories, which are imported and not part of
  the file (section 4.5): a preamble for the name of the ABI, one property per event item,
  and a wrapper of the return type of a method. The spec leaves the shapes to the provider;
  the texts here are one possible choice.
\<close>

definition sample_eventProperties :: "string \<Rightarrow> AbiItem list \<Rightarrow> string" where
  "sample_eventProperties shape abiItems =
     concat (map (\<lambda>x. string_text (item_name x) @ shape)
       (filter (\<lambda>x. item_type x = AbiItemType_event) abiItems))"

text \<open>
  Modelled from the spec: the functions of \<^verbatim>\<open>path\<close> for absolute and relative paths
  without dot segments, with \<^verbatim>\<open>/cwd\<close> as the working directory.
\<close>

definition sample_resolve :: "string \<Rightarrow> string" where
  "sample_resolve p = (if take 1 p = ''/'' then p else ''/cwd/'' @ p)"

definition sample_dirname :: "string \<Rightarrow> string" where
  "sample_dirname p = rev (drop 1 (dropWhile (\<lambda>c. c \<noteq> CHR ''/'') (rev p)))"

definition sample_basename :: "string \<Rightarrow> string" where
  "sample_basename p = rev (takeWhile (\<lambda>c. c \<noteq> CHR ''/'') (rev p))"

text \<open>Three items and the texts of ABI files.\<close>

definition quoted :: "string \<Rightarrow> string" where
  "quoted s = [CHR 0x22] @ s @ [CHR 0x22]"

definition item_f :: AbiItem where
  "item_f =
     \<lparr>item_type = AbiItemType_function, item_name = Some ''f'', inputs = None, outputs = None,
      payable = None, constant_flag = None, stateMutability = None\<rparr>"

definition text_f :: string where
  "text_f = ''[{'' @ quoted ''type'' @ '':'' @ quoted ''function'' @ '',''
              @ quoted ''name'' @ '':'' @ quoted ''f'' @ ''}]''"

definition item_Transfer :: AbiItem where
  "item_Transfer =
     \<lparr>item_type = AbiItemType_event, item_name = Some ''Transfer'', inputs = None, outputs = None,
      payable = None, constant_flag = None, stateMutability = None\<rparr>"

definition text_Transfer :: string where
  "text_Transfer = ''[{'' @ quoted ''type'' @ '':'' @ quoted ''event'' @ '',''
                     @ quoted ''name'' @ '':'' @ quoted ''Transfer'' @ ''}]''"

text \<open>
  Modelled from the spec: \<^verbatim>\<open>JSON.parse\<close> on the texts used below; it throws on every
  other text of this instance, as it does on \<^verbatim>\<open>not json\<close>. No text of this instance
  parses to an object with a member \<^verbatim>\<open>length\<close>, so \<open>arrayLikeItems\<close> is never
  consulted; the instance gives it as \<open>None\<close> everywhere.
\<close>

definition sample_parse :: "string \<Rightarrow> json option" where
  "sample_parse s =
     map_of [(''[]'', JArray []), (''{}'', JObject []), (''null'', JNull),
             (text_f, JArray [item_f]), (text_Transfer, JArray [item_Transfer])] s"

text \<open>
  Modelled from the spec: \<^verbatim>\<open>prettier.format\<close>, here a formatter that accepts every
  text with every options object and changes nothing.
\<close>

definition sample_imports :: Imports where
  "sample_imports =
     \<lparr>capitalize = sample_capitalize,
      getSolidityTsType = sample_getSolidityTsType,
      buildInterface = sample_buildInterface,
      buildType = sample_buildType,
      SolidityType_tuple = ''tuple'',
      web3_buildWeb3Interfaces = (\<lambda>n. ''export type ContractContext = Web3ContractContext<'' @ n @ ''>;''),
      web3_buildEventInterfaceProperties = sample_eventProperties ''(cb): EventResponse;'',
      web3_buildMethodReturnContext = (\<lambda>ty abiItem. '': MethodReturnContext<'' @ ty @ ''>''),
      ethers_buildEthersInterfaces = (\<lambda>n. ''export type ContractContext = EthersContractContext<'' @ n @ ''>;''),
      ethers_buildEventInterfaceProperties = sample_eventProperties ''(...args): EventFilter;'',
      ethers_buildMethodReturnContext = (\<lambda>ty abiItem. '': Promise<'' @ ty @ ''>''),
      path_resolve = sample_resolve,
      path_dirname = sample_dirname,
      path_basename = sample_basename,
      JSON_parse = sample_parse,
      arrayLikeItems = (\<lambda>members. None),
      prettier_format = (\<lambda>fullTypings options. Some fullTypings)\<rparr>"

definition sample_context :: "Provider \<Rightarrow> GeneratorContext" where
  "sample_context p =
     \<lparr>abiFileLocation = ''/abi/token.json'', outputPathDirectory = Some ''/out'',
      name = None, provider = p, prettierOptions = None, watch = False\<rparr>"

definition sample_world :: "string \<Rightarrow> World" where
  "sample_world content =
     \<lparr>files = [''/abi/token.json'' \<mapsto> content], directories = [''/abi'', ''/out''],
      io_log = [], watchers = [], console = []\<rparr>"

text \<open>
  A composite input with a composite component; an item with two unnamed outputs; an
  item with two composite inputs and an unnamed one.
\<close>

definition nested_input :: AbiInput where
  "nested_input =
     AbiInput ''order'' ''tuple'' None
       (Some [AbiInput ''maker'' ''address'' None None,
              AbiInput ''fee'' ''tuple'' None (Some [AbiInput ''open'' ''bool'' None None])])"

definition item_pair :: AbiItem where
  "item_pair =
     \<lparr>item_type = AbiItemType_function, item_name = Some ''pair'', inputs = Some [],
      outputs = Some [AbiOutput [] ''address'' None, AbiOutput [] ''bool'' None],
      payable = Some False, constant_flag = Some True, stateMutability = Some ''view''\<rparr>"

definition item_swap :: AbiItem where
  "item_swap =
     \<lparr>item_type = AbiItemType_function, item_name = Some ''swap'',
      inputs = Some [AbiInput ''give'' ''tuple'' None (Some [AbiInput ''token'' ''address'' None None]),
                     AbiInput [] ''bool'' None None,
                     AbiInput ''take'' ''tuple'' None (Some [AbiInput ''open'' ''bool'' None None])],
      outputs = Some [AbiOutput ''done'' ''bool'' None],
      payable = Some False, constant_flag = Some False, stateMutability = Some ''nonpayable''\<rparr>"

text \<open>The same instance under another provider; what the provider contributes to the output.\<close>

definition withProvider :: "Provider \<Rightarrow> AbiGenerator \<Rightarrow> AbiGenerator" where
  "withProvider p g = g\<lparr>p_context := (p_context g)\<lparr>provider := p\<rparr>\<rparr>"

definition providerPreamble :: "Imports \<Rightarrow> Provider \<Rightarrow> string \<Rightarrow> string" where
  "providerPreamble E p n =
     (case p of web3 \<Rightarrow> web3_buildWeb3Interfaces E n
      | ethers \<Rightarrow> ethers_buildEthersInterfaces E n
      | unsupported u \<Rightarrow> [])"

definition providerEventProperties :: "Imports \<Rightarrow> Provider \<Rightarrow> AbiItem list \<Rightarrow> string" where
  "providerEventProperties E p abi =
     (case p of web3 \<Rightarrow> web3_buildEventInterfaceProperties E abi
      | ethers \<Rightarrow> ethers_buildEventInterfaceProperties E abi
      | unsupported u \<Rightarrow> [])"

text \<open>Two instances that differ at most in the accumulated interfaces.\<close>

definition sameButInterfaces :: "AbiGenerator \<Rightarrow> AbiGenerator \<Rightarrow> bool" where
  "sameButInterfaces g g' =
     (p_context g' = p_context g \<and> p_events g' = p_events g \<and> p_methodNames g' = p_methodNames g)"

text \<open>
  A constructor, which has no name and here a composite input, and an item of a type that
  the generator ignores.
\<close>

definition item_ctor :: AbiItem where
  "item_ctor =
     \<lparr>item_type = AbiItemType_constructor, item_name = None,
      inputs = Some [AbiInput ''supply'' ''uint256'' None None,
                     AbiInput ''config'' ''tuple'' None
                       (Some [AbiInput ''owner'' ''address'' None None])],
      outputs = None,
      payable = Some False, constant_flag = None, stateMutability = Some ''nonpayable''\<rparr>"

definition item_fallback :: AbiItem where
  "item_fallback =
     \<lparr>item_type = AbiItemType_other ''fallback'', item_name = None, inputs = None, outputs = None,
      payable = Some True, constant_flag = None, stateMutability = Some ''payable''\<rparr>"

text \<open>
  The errors that the builders can raise; the options after \<^verbatim>\<open>getPrettierOptions\<close> has
  written the parser; the events of \<open>io_log\<close> that read the ABI file or write a file.
\<close>

fun isBuildError :: "error \<Rightarrow> bool" where
  "isBuildError TypeError = True"
| "isBuildError (ProviderNotSupported p) = True"
| "isBuildError e = False"

definition forceParser :: "Options option \<Rightarrow> Options option" where
  "forceParser po = map_option (\<lambda>opts. opts\<lparr>parser := Some ''typescript''\<rparr>) po"

fun isWrite :: "io_event \<Rightarrow> bool" where
  "isWrite (WriteFileSync p) = True"
| "isWrite e = False"

text \<open>A world that differs from another at most by reads and by console output.\<close>

definition readOnly :: "World \<Rightarrow> World \<Rightarrow> bool" where
  "readOnly w w' =
     (files w' = files w \<and> directories w' = directories w \<and> watchers w' = watchers w
      \<and> filter isWrite (io_log w') = filter isWrite (io_log w)
      \<and> set (io_log w) \<subseteq> set (io_log w'))"

text \<open>The error of \<^verbatim>\<open>getAbiJson\<close> for a file that is not JSON.\<close>

fun isSourceFormatError :: "error + 'a \<Rightarrow> bool" where
  "isSourceFormatError (Inl (AbiNotJsonFile p)) = True"
| "isSourceFormatError r = False"


text \<open>The interfaces that one constructor or function adds to the accumulator.\<close>

definition itemInterfaces :: "Imports \<Rightarrow> AbiItem \<Rightarrow> string list" where
  "itemInterfaces E x =
     map (requestInterface E (item_name x))
       (filter (isTuple E) (case inputs x of None \<Rightarrow> [] | Some ins \<Rightarrow> ins))
     @ (case outputs x of
          None \<Rightarrow> []
        | Some outs \<Rightarrow>
            if 2 \<le> length outs then [responseInterface E (item_name x) outs] else [])"


section \<open>Properties of the builders\<close>

lemma tupleProperties_eq:
  "tupleProperties E cs properties = properties @ concat (map (inputField E) cs)"
  by (induction cs arbitrary: properties) (simp_all add: inputField_def)

lemma outputProperties_eq:
  "outputProperties E outs ouputProperties = ouputProperties @ concat (map (outputField E) outs)"
  by (induction outs arbitrary: ouputProperties) (simp_all add: outputField_def)

lemma buildTupleParametersInterface_Some:
  assumes "components x = Some cs"
  shows "buildTupleParametersInterface E nm x g =
           (Inr (capitalize E nm @ ''Request''),
            g\<lparr>p_parametersAndReturnTypeInterfaces :=
                 p_parametersAndReturnTypeInterfaces g @ [requestInterface E nm x]\<rparr>)"
  using assms
  by (simp add: buildTupleParametersInterface_def requestInterface_def componentsOf_def
        tupleProperties_eq Let_def)

lemma buildMethodReturnContext_supported:
  assumes "supported (provider (p_context g))"
  shows "\<exists>t. buildMethodReturnContext E g ty abiItem = Inr t"
  using assms by (auto simp: buildMethodReturnContext_def supported_def)

lemma buildMethodReturnContext_accumulators:
  "buildMethodReturnContext E (g\<lparr>p_parametersAndReturnTypeInterfaces := xs\<rparr>) ty abiItem =
     buildMethodReturnContext E g ty abiItem"
  by (simp add: buildMethodReturnContext_def)

lemma buildMethodReturnContext_web3:
  "provider (p_context g) = web3 \<Longrightarrow>
     buildMethodReturnContext E g ty abiItem = Inr (web3_buildMethodReturnContext E ty abiItem)"
  by (simp add: buildMethodReturnContext_def)

lemma buildMethodReturnContext_ethers:
  "provider (p_context g) = ethers \<Longrightarrow>
     buildMethodReturnContext E g ty abiItem = Inr (ethers_buildMethodReturnContext E ty abiItem)"
  by (simp add: buildMethodReturnContext_def)

lemma buildPropertyReturnTypeInterface_eq:
  "buildPropertyReturnTypeInterface E abiItem g =
     (case outputs abiItem of
        None \<Rightarrow> (buildMethodReturnContext E g ''void'' abiItem, g)
      | Some outs \<Rightarrow>
          if outs = [] then (buildMethodReturnContext E g ''void'' abiItem, g)
          else if length outs = 1
          then (buildMethodReturnContext E g (getSolidityTsType E (output_type (hd outs))) abiItem, g)
          else (buildMethodReturnContext E g (capitalize E (item_name abiItem) @ ''Response'') abiItem,
                g\<lparr>p_parametersAndReturnTypeInterfaces :=
                     p_parametersAndReturnTypeInterfaces g
                       @ [responseInterface E (item_name abiItem) outs]\<rparr>))"
  by (simp add: buildPropertyReturnTypeInterface_def outputProperties_eq Let_def
        responseInterface_def buildMethodReturnContext_accumulators
        split: option.splits list.splits del: outputProperties.simps)

text \<open>
  C7. For a callable item and a supported provider, the return expression is what the
  factory of that provider returns (\<open>web3_buildMethodReturnContext\<close> under web3,
  \<open>ethers_buildMethodReturnContext\<close> under ethers) for the item and for the type
  \<^verbatim>\<open>void\<close> when there is no output, the mapped type of the output when there is exactly
  one, and the name \<open>Capitalize(name) + Response\<close> when there are two or more; in the last
  case alone the accumulator grows, by exactly one interface of that name with one field per
  output in the order of the outputs.
\<close>

theorem return_type_by_number_of_outputs:
  assumes "supported (provider (p_context g))"
  shows "(outputs abiItem = None \<or> outputs abiItem = Some [] \<longrightarrow>
            buildPropertyReturnTypeInterface E abiItem g =
              (Inr ((if provider (p_context g) = web3 then web3_buildMethodReturnContext E
                     else ethers_buildMethodReturnContext E) ''void'' abiItem), g))
       \<and> (\<forall>out. outputs abiItem = Some [out] \<longrightarrow>
            buildPropertyReturnTypeInterface E abiItem g =
              (Inr ((if provider (p_context g) = web3 then web3_buildMethodReturnContext E
                     else ethers_buildMethodReturnContext E)
                      (getSolidityTsType E (output_type out)) abiItem), g))
       \<and> (\<forall>outs. outputs abiItem = Some outs \<and> 2 \<le> length outs \<longrightarrow>
            buildPropertyReturnTypeInterface E abiItem g =
              (Inr ((if provider (p_context g) = web3 then web3_buildMethodReturnContext E
                     else ethers_buildMethodReturnContext E)
                      (capitalize E (item_name abiItem) @ ''Response'') abiItem),
               g\<lparr>p_parametersAndReturnTypeInterfaces :=
                    p_parametersAndReturnTypeInterfaces g
                      @ [buildInterface E (capitalize E (item_name abiItem) @ ''Response'')
                           (concat (map (outputField E) outs))]\<rparr>))"
proof -
  from assms consider "provider (p_context g) = web3" | "provider (p_context g) = ethers"
    by (auto simp: supported_def)
  then show ?thesis
  proof cases
    case 1
    then show ?thesis
      by (auto simp: buildPropertyReturnTypeInterface_eq buildMethodReturnContext_web3
            responseInterface_def)
  next
    case 2
    then show ?thesis
      by (auto simp: buildPropertyReturnTypeInterface_eq buildMethodReturnContext_ethers
            responseInterface_def)
  qed
qed

lemma buildParameters_loop_wellFormed:
  assumes "inputsWellFormed E xs"
  shows "\<exists>t. buildParameters_loop E nm i xs input g =
           (Inr t,
            g\<lparr>p_parametersAndReturnTypeInterfaces :=
                 p_parametersAndReturnTypeInterfaces g
                   @ map (requestInterface E nm) (filter (isTuple E) xs)\<rparr>)"
  using assms
proof (induction xs arbitrary: i input g)
  case Nil
  then show ?case by simp
next
  case (Cons x xs)
  from Cons.prems have wf: "inputsWellFormed E xs"
    by (simp add: inputsWellFormed_def)
  show ?case
  proof (cases "isTuple E x")
    case True
    with Cons.prems obtain cs where cs: "components x = Some cs"
      by (auto simp: inputsWellFormed_def isTuple_def)
    let ?g = "g\<lparr>p_parametersAndReturnTypeInterfaces :=
                   p_parametersAndReturnTypeInterfaces g @ [requestInterface E nm x]\<rparr>"
    from Cons.IH [OF wf, of "Suc i" _ ?g] True cs show ?thesis
      by (simp add: buildTupleParametersInterface_Some isTuple_def Let_def)
  next
    case False
    with Cons.IH [OF wf, of "Suc i" _ g] show ?thesis
      by (simp add: isTuple_def Let_def)
  qed
qed

text \<open>
  C5. An item whose composite inputs carry their components: building its parameters
  appends to the accumulator exactly one interface for each composite input, in the order of
  the inputs and without looking at what is there already; each is named
  \<open>Capitalize(itemName) + Request\<close> and has one field per component, in the order of the
  components. Two composite inputs of one item give two declarations of the same name. The
  name of the item is passed to \<open>capitalize\<close> as the item has it, also when it is absent,
  as it is for a constructor.
\<close>

theorem request_interface_per_composite_input:
  assumes "inputs abiItem = Some ins" and "inputsWellFormed E ins"
  shows "p_parametersAndReturnTypeInterfaces (snd (buildParameters E abiItem g)) =
           p_parametersAndReturnTypeInterfaces g
             @ map (\<lambda>x. buildInterface E (capitalize E (item_name abiItem) @ ''Request'')
                          (concat (map (inputField E) (componentsOf x))))
                   (filter (\<lambda>x. input_type x = SolidityType_tuple E) ins)"
proof -
  obtain t where
    "buildParameters_loop E (item_name abiItem) 0 ins ''('' g =
       (Inr t,
        g\<lparr>p_parametersAndReturnTypeInterfaces :=
             p_parametersAndReturnTypeInterfaces g
               @ map (requestInterface E (item_name abiItem)) (filter (isTuple E) ins)\<rparr>)"
    using buildParameters_loop_wellFormed [OF assms(2)] by blast
  moreover have "requestInterface E (item_name abiItem) =
      (\<lambda>x. buildInterface E (capitalize E (item_name abiItem) @ ''Request'')
             (concat (map (inputField E) (componentsOf x))))"
    by (rule ext) (simp add: requestInterface_def)
  moreover have "isTuple E = (\<lambda>x. input_type x = SolidityType_tuple E)"
    by (rule ext) (simp add: isTuple_def)
  ultimately show ?thesis
    using assms(1) by (simp add: buildParameters_def)
qed

text \<open>
  C6, as the code has it. The expander maps every component through
  \<open>getSolidityTsType\<close>, whatever its type, and appends exactly one declaration: the
  components of a component are never read, and a composite component gets no declaration
  of its own.
\<close>

theorem composite_component_mapped_as_primitive:
  assumes "components x = Some cs"
  shows "buildTupleParametersInterface E nm x g =
           (Inr (capitalize E nm @ ''Request''),
            g\<lparr>p_parametersAndReturnTypeInterfaces :=
                 p_parametersAndReturnTypeInterfaces g
                   @ [buildInterface E (capitalize E nm @ ''Request'')
                        (concat (map (inputField E) cs))]\<rparr>)
       \<and> buildTupleParametersInterface E nm x g =
           buildTupleParametersInterface E nm
             (AbiInput (input_name x) (input_type x) (indexed x)
                (Some (map (\<lambda>c. AbiInput (input_name c) (input_type c) (indexed c) None) cs))) g"
proof -
  have same: "inputField E \<circ> (\<lambda>c. AbiInput (input_name c) (input_type c) (indexed c) None) =
              inputField E"
    by (rule ext) (simp add: inputField_def)
  from assms show ?thesis
    by (simp add: buildTupleParametersInterface_def tupleProperties_eq Let_def same)
qed

theorem return_type_by_number_of_outputs_witness:
  "supported (provider (p_context (new_AbiGenerator (sample_context web3))))
   \<and> supported (provider (p_context (new_AbiGenerator (sample_context ethers))))
   \<and> buildPropertyReturnTypeInterface sample_imports item_pair
         (new_AbiGenerator (sample_context web3)) =
       (Inr '': MethodReturnContext<PairResponse>'',
        (new_AbiGenerator (sample_context web3))
          \<lparr>p_parametersAndReturnTypeInterfaces :=
             [''export interface PairResponse {: string;: boolean;}'']\<rparr>)
   \<and> buildPropertyReturnTypeInterface sample_imports item_pair
         (new_AbiGenerator (sample_context ethers)) =
       (Inr '': Promise<PairResponse>'',
        (new_AbiGenerator (sample_context ethers))
          \<lparr>p_parametersAndReturnTypeInterfaces :=
             [''export interface PairResponse {: string;: boolean;}'']\<rparr>)
   \<and> buildPropertyReturnTypeInterface sample_imports item_swap
         (new_AbiGenerator (sample_context ethers)) =
       (Inr '': Promise<boolean>'', new_AbiGenerator (sample_context ethers))
   \<and> buildPropertyReturnTypeInterface sample_imports item_f
         (new_AbiGenerator (sample_context web3)) =
       (Inr '': MethodReturnContext<void>'', new_AbiGenerator (sample_context web3))"
proof -
  let ?w = "new_AbiGenerator (sample_context web3)"
  let ?e = "new_AbiGenerator (sample_context ethers)"
  have s: "supported (provider (p_context ?w))" "supported (provider (p_context ?e))"
    by (simp_all add: supported_def new_AbiGenerator_def sample_context_def)
  have p: "provider (p_context ?w) = web3" "provider (p_context ?e) = ethers"
    by (simp_all add: new_AbiGenerator_def sample_context_def)
  have o: "outputs item_pair = Some [AbiOutput [] ''address'' None, AbiOutput [] ''bool'' None]
           \<and> 2 \<le> length [AbiOutput [] ''address'' None, AbiOutput [] ''bool'' None]"
    "outputs item_swap = Some [AbiOutput ''done'' ''bool'' None]"
    "outputs item_f = None \<or> outputs item_f = Some []"
    by (simp_all add: item_pair_def item_swap_def item_f_def)
  have a: "buildPropertyReturnTypeInterface sample_imports item_pair ?w =
             (Inr (web3_buildMethodReturnContext sample_imports
                     (capitalize sample_imports (item_name item_pair) @ ''Response'') item_pair),
              ?w\<lparr>p_parametersAndReturnTypeInterfaces :=
                   p_parametersAndReturnTypeInterfaces ?w
                     @ [buildInterface sample_imports
                          (capitalize sample_imports (item_name item_pair) @ ''Response'')
                          (concat (map (outputField sample_imports)
                             [AbiOutput [] ''address'' None, AbiOutput [] ''bool'' None]))]\<rparr>)"
    using return_type_by_number_of_outputs [OF s(1), where abiItem = item_pair
        and E = sample_imports] o(1) p(1)
    by simp
  have b: "buildPropertyReturnTypeInterface sample_imports item_pair ?e =
             (Inr (ethers_buildMethodReturnContext sample_imports
                     (capitalize sample_imports (item_name item_pair) @ ''Response'') item_pair),
              ?e\<lparr>p_parametersAndReturnTypeInterfaces :=
                   p_parametersAndReturnTypeInterfaces ?e
                     @ [buildInterface sample_imports
                          (capitalize sample_imports (item_name item_pair) @ ''Response'')
                          (concat (map (outputField sample_imports)
                             [AbiOutput [] ''address'' None, AbiOutput [] ''bool'' None]))]\<rparr>)"
    using return_type_by_number_of_outputs [OF s(2), where abiItem = item_pair
        and E = sample_imports] o(1) p(2)
    by simp
  have c: "buildPropertyReturnTypeInterface sample_imports item_swap ?e =
             (Inr (ethers_buildMethodReturnContext sample_imports
                     (getSolidityTsType sample_imports
                        (output_type (AbiOutput ''done'' ''bool'' None))) item_swap), ?e)"
    using return_type_by_number_of_outputs [OF s(2), where abiItem = item_swap
        and E = sample_imports] o(2) p(2)
    by simp
  have d: "buildPropertyReturnTypeInterface sample_imports item_f ?w =
             (Inr (web3_buildMethodReturnContext sample_imports ''void'' item_f), ?w)"
    using return_type_by_number_of_outputs [OF s(1), where abiItem = item_f
        and E = sample_imports] o(3) p(1)
    by simp
  show ?thesis
    unfolding a b c d using s
    by (simp add: sample_imports_def item_pair_def new_AbiGenerator_def sample_context_def
          outputField_def sample_buildInterface_def sample_getSolidityTsType_def upper_char_def)
qed

theorem request_interface_per_composite_input_witness:
  "inputsWellFormed sample_imports
     [AbiInput ''give'' ''tuple'' None (Some [AbiInput ''token'' ''address'' None None]),
      AbiInput [] ''bool'' None None,
      AbiInput ''take'' ''tuple'' None (Some [AbiInput ''open'' ''bool'' None None])]
   \<and> p_parametersAndReturnTypeInterfaces
       (snd (buildParameters sample_imports item_swap (new_AbiGenerator (sample_context web3)))) =
     [''export interface SwapRequest {token: string;}'',
      ''export interface SwapRequest {open: boolean;}'']
   \<and> inputsWellFormed sample_imports
       [AbiInput ''supply'' ''uint256'' None None,
        AbiInput ''config'' ''tuple'' None (Some [AbiInput ''owner'' ''address'' None None])]
   \<and> p_parametersAndReturnTypeInterfaces
       (snd (buildParameters sample_imports item_ctor (new_AbiGenerator (sample_context web3)))) =
     [''export interface undefinedRequest {owner: string;}'']"
proof -
  let ?ins = "[AbiInput ''give'' ''tuple'' None (Some [AbiInput ''token'' ''address'' None None]),
               AbiInput [] ''bool'' None None,
               AbiInput ''take'' ''tuple'' None (Some [AbiInput ''open'' ''bool'' None None])]"
  let ?cins = "[AbiInput ''supply'' ''uint256'' None None,
                AbiInput ''config'' ''tuple'' None
                  (Some [AbiInput ''owner'' ''address'' None None])]"
  have i: "inputs item_swap = Some ?ins" "inputs item_ctor = Some ?cins"
    by (simp_all add: item_swap_def item_ctor_def)
  have wf: "inputsWellFormed sample_imports ?ins" "inputsWellFormed sample_imports ?cins"
    by (simp_all add: inputsWellFormed_def sample_imports_def)
  from request_interface_per_composite_input [OF i(1) wf(1),
         of "new_AbiGenerator (sample_context web3)"]
       request_interface_per_composite_input [OF i(2) wf(2),
         of "new_AbiGenerator (sample_context web3)"]
  show ?thesis
    using wf
    by (simp add: sample_imports_def item_swap_def item_ctor_def new_AbiGenerator_def
          inputField_def componentsOf_def sample_buildInterface_def
          sample_getSolidityTsType_def upper_char_def)
qed

theorem composite_component_mapped_as_primitive_witness:
  "components nested_input =
     Some [AbiInput ''maker'' ''address'' None None,
           AbiInput ''fee'' ''tuple'' None (Some [AbiInput ''open'' ''bool'' None None])]
   \<and> buildTupleParametersInterface sample_imports (Some ''f'') nested_input
         (new_AbiGenerator (sample_context web3)) =
       (Inr ''FRequest'',
        (new_AbiGenerator (sample_context web3))
          \<lparr>p_parametersAndReturnTypeInterfaces :=
             [''export interface FRequest {maker: string;fee: any;}'']\<rparr>)"
proof -
  have c: "components nested_input =
     Some [AbiInput ''maker'' ''address'' None None,
           AbiInput ''fee'' ''tuple'' None (Some [AbiInput ''open'' ''bool'' None None])]"
    by (simp add: nested_input_def)
  from composite_component_mapped_as_primitive [OF c, of sample_imports "Some ''f''"
         "new_AbiGenerator (sample_context web3)"]
  show ?thesis
    using c
    by (simp add: sample_imports_def new_AbiGenerator_def inputField_def
          sample_buildInterface_def sample_getSolidityTsType_def upper_char_def)
qed

text \<open>
  C6, as the claim states it, fails: the component \<^verbatim>\<open>fee\<close> is composite, and the
  accumulator receives the declaration of the outer input alone, in which the type of
  \<^verbatim>\<open>fee\<close> is what \<open>getSolidityTsType\<close> gives for the composite tag.
\<close>

theorem composite_component_not_expanded:
  "p_parametersAndReturnTypeInterfaces
     (snd (buildTupleParametersInterface sample_imports (Some ''f'') nested_input
             (new_AbiGenerator (sample_context web3)))) =
   [sample_buildInterface ''FRequest''
      (''maker: string;'' @ ''fee: '' @ sample_getSolidityTsType ''tuple'' @ '';'')]"
  by code_simp

section \<open>The names of the parameters\<close>

lemma joinWith_Cons: "joinWith sep (t # ts) = t @ concat (map (\<lambda>s. sep @ s) ts)"
  by (induction ts arbitrary: t) simp_all

lemma buildParameters_loop_text:
  assumes "inputsWellFormed E xs" and "1 < length input"
  shows "fst (buildParameters_loop E nm i xs input g) =
           Inr (input @ concat (map (\<lambda>s. '', '' @ s) (parameterTexts E nm i xs)))"
  using assms
proof (induction xs arbitrary: i input g)
  case Nil
  show ?case by simp
next
  case (Cons x xs)
  from Cons.prems(1) have wf: "inputsWellFormed E xs"
    by (simp add: inputsWellFormed_def)
  show ?case
  proof (cases "isTuple E x")
    case True
    with Cons.prems(1) obtain cs where cs: "components x = Some cs"
      by (auto simp: inputsWellFormed_def isTuple_def)
    from True cs Cons.prems(2) Cons.IH [OF wf] show ?thesis
      by (simp add: buildTupleParametersInterface_Some isTuple_def Let_def parameterText_def
            parameterName_def parameterType_def)
  next
    case False
    with Cons.prems(2) Cons.IH [OF wf] show ?thesis
      by (simp add: isTuple_def Let_def parameterText_def parameterName_def parameterType_def)
  qed
qed

lemma unnamed_input_named_by_index:
  assumes "inputs abiItem = Some ins" and "inputsWellFormed E ins"
  shows "fst (buildParameters E abiItem g) =
           Inr (''('' @ joinWith '', '' (parameterTexts E (item_name abiItem) 0 ins) @ '')'')"
proof (cases ins)
  case Nil
  with assms(1) show ?thesis by (simp add: buildParameters_def)
next
  case (Cons x xs)
  from assms(2) Cons have wf: "inputsWellFormed E xs"
    by (simp add: inputsWellFormed_def)
  have first: "fst (buildParameters_loop E (item_name abiItem) 0 (x # xs) ''('' g) =
                 Inr (''('' @ parameterText E (item_name abiItem) 0 x
                      @ concat (map (\<lambda>s. '', '' @ s)
                                  (parameterTexts E (item_name abiItem) (Suc 0) xs)))"
  proof (cases "isTuple E x")
    case True
    with assms(2) Cons obtain cs where cs: "components x = Some cs"
      by (auto simp: inputsWellFormed_def isTuple_def)
    from True cs buildParameters_loop_text [OF wf, where nm = "item_name abiItem"] show ?thesis
      by (simp add: buildTupleParametersInterface_Some isTuple_def Let_def parameterText_def
            parameterName_def parameterType_def)
  next
    case False
    with buildParameters_loop_text [OF wf, where nm = "item_name abiItem"] show ?thesis
      by (simp add: isTuple_def Let_def parameterText_def parameterName_def parameterType_def)
  qed
  obtain r ga where l: "buildParameters_loop E (item_name abiItem) 0 (x # xs) ''('' g = (r, ga)"
    by (cases "buildParameters_loop E (item_name abiItem) 0 (x # xs) ''('' g")
  with first assms(1) Cons show ?thesis
    by (simp add: buildParameters_def joinWith_Cons del: buildParameters_loop.simps)
qed

text \<open>
  C2. The parameter list gives an unnamed input the name \<^verbatim>\<open>parameter\<close> followed by its
  index (\<open>unnamed_input_named_by_index\<close>). The Response interface does not do the same for
  outputs: at an item with two unnamed outputs its fields carry the empty names of the
  outputs, not \<^verbatim>\<open>parameter0\<close> and \<^verbatim>\<open>parameter1\<close>.
\<close>

theorem unnamed_outputs_keep_empty_names:
  "p_parametersAndReturnTypeInterfaces
     (snd (buildPropertyReturnTypeInterface sample_imports item_pair
             (new_AbiGenerator (sample_context web3)))) =
   [sample_buildInterface ''PairResponse'' ('': string;'' @ '': boolean;'')]"
  by code_simp

section \<open>What the builders leave untouched\<close>

lemma sameButInterfaces_refl: "sameButInterfaces g g"
  by (simp add: sameButInterfaces_def)

lemma sameButInterfaces_trans:
  "sameButInterfaces g g1 \<Longrightarrow> sameButInterfaces g1 g2 \<Longrightarrow> sameButInterfaces g g2"
  by (simp add: sameButInterfaces_def)

lemma buildTupleParametersInterface_frame:
  "sameButInterfaces g (snd (buildTupleParametersInterface E nm x g))"
  by (cases "components x")
     (simp_all add: buildTupleParametersInterface_def sameButInterfaces_def Let_def)

lemma buildParameters_loop_frame:
  "sameButInterfaces g (snd (buildParameters_loop E nm i xs input g))"
proof (induction xs arbitrary: i input g)
  case Nil
  show ?case by (simp add: sameButInterfaces_refl)
next
  case (Cons x xs)
  show ?case
  proof (cases "input_type x = SolidityType_tuple E")
    case False
    with Cons.IH show ?thesis by (simp add: Let_def)
  next
    case True
    obtain r g1 where t: "buildTupleParametersInterface E nm x g = (r, g1)"
      by (cases "buildTupleParametersInterface E nm x g")
    have g1: "sameButInterfaces g g1"
      using buildTupleParametersInterface_frame [of g E nm x] t by simp
    show ?thesis
    proof (cases r)
      case (Inl e)
      with True t g1 show ?thesis by (simp add: Let_def)
    next
      case (Inr s)
      with True t sameButInterfaces_trans [OF g1 Cons.IH] show ?thesis
        by (simp add: Let_def)
    qed
  qed
qed

lemma buildParameters_frame:
  "sameButInterfaces g (snd (buildParameters E abiItem g))"
proof (cases "inputs abiItem")
  case None
  then show ?thesis by (simp add: buildParameters_def sameButInterfaces_refl)
next
  case (Some ins)
  with buildParameters_loop_frame [of g E "item_name abiItem" 0 ins "''(''"] show ?thesis
    by (auto simp: buildParameters_def split: prod.splits sum.splits)
qed

lemma buildPropertyReturnTypeInterface_frame:
  "sameButInterfaces g (snd (buildPropertyReturnTypeInterface E abiItem g))"
  by (simp add: buildPropertyReturnTypeInterface_def sameButInterfaces_def Let_def
        split: option.splits list.splits)

lemma buildParametersAndReturnTypes_frame:
  "sameButInterfaces g (snd (buildParametersAndReturnTypes E abiItem g))"
proof -
  obtain r g1 where p: "buildParameters E abiItem g = (r, g1)"
    by (cases "buildParameters E abiItem g")
  have g1: "sameButInterfaces g g1"
    using buildParameters_frame [of g E abiItem] p by simp
  show ?thesis
  proof (cases r)
    case (Inl e)
    with p g1 show ?thesis by (simp add: buildParametersAndReturnTypes_def)
  next
    case (Inr s)
    obtain r2 g2 where q: "buildPropertyReturnTypeInterface E abiItem g1 = (r2, g2)"
      by (cases "buildPropertyReturnTypeInterface E abiItem g1")
    have "sameButInterfaces g1 g2"
      using buildPropertyReturnTypeInterface_frame [of g1 E abiItem] q by simp
    with g1 have "sameButInterfaces g g2" by (rule sameButInterfaces_trans)
    with Inr p q show ?thesis
      by (cases r2) (simp_all add: buildParametersAndReturnTypes_def)
  qed
qed

lemma buildAbiInterface_loop_context:
  "p_context (snd (buildAbiInterface_loop E abi properties g)) = p_context g"
proof (induction abi arbitrary: properties g)
  case Nil
  show ?case by simp
next
  case (Cons x xs)
  have step: "p_context (snd (case buildParametersAndReturnTypes E x ga of
                  (Inl e, g2) \<Rightarrow> (Inl e, g2)
                | (Inr r, g2) \<Rightarrow> buildAbiInterface_loop E xs (f r) g2)) = p_context ga"
    for ga f
  proof -
    obtain r g2 where b: "buildParametersAndReturnTypes E x ga = (r, g2)"
      by (cases "buildParametersAndReturnTypes E x ga")
    have "p_context g2 = p_context ga"
      using buildParametersAndReturnTypes_frame [of ga E x] b
      by (simp add: sameButInterfaces_def)
    with b Cons.IH show ?thesis by (cases r) simp_all
  qed
  show ?case
  proof (cases "item_type x")
    case AbiItemType_constructor
    with step [where ga = "g\<lparr>p_methodNames := p_methodNames g @ [Some ''new'']\<rparr>"] show ?thesis
      by (simp add: Let_def)
  next
    case AbiItemType_function
    with step [where ga = "g\<lparr>p_methodNames := p_methodNames g @ [item_name x]\<rparr>"] show ?thesis
      by (simp add: Let_def)
  next
    case AbiItemType_event
    with Cons.IH show ?thesis by simp
  next
    case (AbiItemType_other t)
    with Cons.IH show ?thesis by simp
  qed
qed

section \<open>The two providers\<close>

lemma withProvider_fields [simp]:
  "p_methodNames (withProvider p g) = p_methodNames g"
  "p_events (withProvider p g) = p_events g"
  "p_parametersAndReturnTypeInterfaces (withProvider p g) = p_parametersAndReturnTypeInterfaces g"
  "provider (p_context (withProvider p g)) = p"
  by (simp_all add: withProvider_def)

lemma withProvider_updates:
  "(withProvider p g)\<lparr>p_methodNames := ms\<rparr> = withProvider p (g\<lparr>p_methodNames := ms\<rparr>)"
  "(withProvider p g)\<lparr>p_events := es\<rparr> = withProvider p (g\<lparr>p_events := es\<rparr>)"
  "(withProvider p g)\<lparr>p_parametersAndReturnTypeInterfaces := is\<rparr> =
     withProvider p (g\<lparr>p_parametersAndReturnTypeInterfaces := is\<rparr>)"
  by (simp_all add: withProvider_def)

lemma getAbiName_withProvider [simp]: "getAbiName E (withProvider p g) = getAbiName E g"
  by (simp add: getAbiName_def getAbiFileLocationRawName_def withProvider_def)

lemma buildTupleParametersInterface_withProvider:
  "buildTupleParametersInterface E nm x (withProvider p g) =
     (fst (buildTupleParametersInterface E nm x g),
      withProvider p (snd (buildTupleParametersInterface E nm x g)))"
  by (cases "components x")
     (simp_all add: buildTupleParametersInterface_def Let_def withProvider_updates)

lemma buildParameters_loop_withProvider:
  "buildParameters_loop E nm i xs input (withProvider p g) =
     (fst (buildParameters_loop E nm i xs input g),
      withProvider p (snd (buildParameters_loop E nm i xs input g)))"
proof (induction xs arbitrary: i input g)
  case Nil
  show ?case by simp
next
  case (Cons x xs)
  show ?case
  proof (cases "input_type x = SolidityType_tuple E")
    case False
    with Cons.IH show ?thesis by (simp add: Let_def)
  next
    case True
    obtain r ga where t: "buildTupleParametersInterface E nm x g = (r, ga)"
      by (cases "buildTupleParametersInterface E nm x g")
    then have t': "buildTupleParametersInterface E nm x (withProvider p g) = (r, withProvider p ga)"
      by (simp add: buildTupleParametersInterface_withProvider)
    from True t t' Cons.IH show ?thesis
      by (cases r) (simp_all add: Let_def)
  qed
qed

lemma buildParameters_withProvider:
  "buildParameters E abiItem (withProvider p g) =
     (fst (buildParameters E abiItem g), withProvider p (snd (buildParameters E abiItem g)))"
proof (cases "inputs abiItem")
  case None
  then show ?thesis by (simp add: buildParameters_def)
next
  case (Some ins)
  obtain r ga where l: "buildParameters_loop E (item_name abiItem) 0 ins ''('' g = (r, ga)"
    by (cases "buildParameters_loop E (item_name abiItem) 0 ins ''('' g")
  then have "buildParameters_loop E (item_name abiItem) 0 ins ''('' (withProvider p g) =
               (r, withProvider p ga)"
    by (simp add: buildParameters_loop_withProvider)
  with Some l show ?thesis
    by (cases r) (simp_all add: buildParameters_def)
qed

lemma buildPropertyReturnTypeInterface_withProvider:
  assumes "supported p"
  shows "\<exists>t. buildPropertyReturnTypeInterface E abiItem (withProvider p g) =
           (Inr t, withProvider p (snd (buildPropertyReturnTypeInterface E abiItem g)))"
proof -
  have ok: "\<exists>t. buildMethodReturnContext E (withProvider p ga) ty abiItem = Inr t" for ga ty
    using assms by (intro buildMethodReturnContext_supported) simp
  show ?thesis
    using ok
    by (simp add: buildPropertyReturnTypeInterface_def Let_def withProvider_updates
          split: option.splits list.splits)
qed

lemma buildParametersAndReturnTypes_withProvider:
  assumes "supported p"
  shows "\<exists>r. buildParametersAndReturnTypes E abiItem (withProvider p g) =
             (r, withProvider p (snd (buildParametersAndReturnTypes E abiItem g)))
           \<and> (isl r \<longleftrightarrow> isl (fst (buildParameters E abiItem g)))"
proof -
  obtain r ga where b: "buildParameters E abiItem g = (r, ga)"
    by (cases "buildParameters E abiItem g")
  then have b': "buildParameters E abiItem (withProvider p g) = (r, withProvider p ga)"
    by (simp add: buildParameters_withProvider)
  show ?thesis
  proof (cases r)
    case (Inl e)
    with b b' show ?thesis by (simp add: buildParametersAndReturnTypes_def)
  next
    case (Inr s)
    obtain t where
      t: "buildPropertyReturnTypeInterface E abiItem (withProvider p ga) =
            (Inr t, withProvider p (snd (buildPropertyReturnTypeInterface E abiItem ga)))"
      using buildPropertyReturnTypeInterface_withProvider [OF assms] by blast
    obtain r2 gb where q: "buildPropertyReturnTypeInterface E abiItem ga = (r2, gb)"
      by (cases "buildPropertyReturnTypeInterface E abiItem ga")
    with Inr b b' t show ?thesis
      by (cases r2) (simp_all add: buildParametersAndReturnTypes_def)
  qed
qed

lemma buildAbiInterface_loop_two_providers:
  assumes "supported p" and "supported q"
  shows "\<exists>r s g'. buildAbiInterface_loop E abi props (withProvider p g) = (r, withProvider p g')
                 \<and> buildAbiInterface_loop E abi props' (withProvider q g) = (s, withProvider q g')
                 \<and> (isl r \<longleftrightarrow> isl s)"
proof (induction abi arbitrary: props props' g)
  case Nil
  show ?case by auto
next
  case (Cons x xs)
  have callable:
    "\<exists>r s g'.
       (case buildParametersAndReturnTypes E x (withProvider p ga) of
          (Inl e, gb) \<Rightarrow> (Inl e, gb)
        | (Inr t, gb) \<Rightarrow> buildAbiInterface_loop E xs (f t) gb) = (r, withProvider p g')
     \<and> (case buildParametersAndReturnTypes E x (withProvider q ga) of
          (Inl e, gb) \<Rightarrow> (Inl e, gb)
        | (Inr t, gb) \<Rightarrow> buildAbiInterface_loop E xs (f' t) gb) = (s, withProvider q g')
     \<and> (isl r \<longleftrightarrow> isl s)" for ga f f'
  proof -
    let ?gb = "snd (buildParametersAndReturnTypes E x ga)"
    obtain r where r: "buildParametersAndReturnTypes E x (withProvider p ga) = (r, withProvider p ?gb)"
      "isl r \<longleftrightarrow> isl (fst (buildParameters E x ga))"
      using buildParametersAndReturnTypes_withProvider [OF assms(1)] by blast
    obtain s where s: "buildParametersAndReturnTypes E x (withProvider q ga) = (s, withProvider q ?gb)"
      "isl s \<longleftrightarrow> isl (fst (buildParameters E x ga))"
      using buildParametersAndReturnTypes_withProvider [OF assms(2)] by blast
    show ?thesis
    proof (cases r)
      case (Inl e)
      with r s obtain e' where "s = Inl e'" by (cases s) auto
      with Inl r s show ?thesis by auto
    next
      case (Inr t)
      with r s obtain t' where "s = Inr t'" by (cases s) auto
      with Inr r s Cons.IH [of "f t" ?gb "f' t'"] show ?thesis by auto
    qed
  qed
  show ?case
  proof (cases "item_type x")
    case AbiItemType_constructor
    with callable [where ga = "g\<lparr>p_methodNames := p_methodNames g @ [Some ''new'']\<rparr>"]
    show ?thesis by (simp add: Let_def withProvider_updates)
  next
    case AbiItemType_function
    with callable [where ga = "g\<lparr>p_methodNames := p_methodNames g @ [item_name x]\<rparr>"]
    show ?thesis by (simp add: Let_def withProvider_updates)
  next
    case AbiItemType_event
    with Cons.IH [of props "g\<lparr>p_events := p_events g @ [item_name x]\<rparr>" props']
    show ?thesis by (simp add: withProvider_updates)
  next
    case (AbiItemType_other t)
    with Cons.IH [of props g props'] show ?thesis by simp
  qed
qed

lemma buildAbiInterface_two_providers:
  assumes "supported p" and "supported q"
  shows "\<exists>r s g'. buildAbiInterface E abi (withProvider p g) = (r, withProvider p g')
                 \<and> buildAbiInterface E abi (withProvider q g) = (s, withProvider q g')
                 \<and> (isl r \<longleftrightarrow> isl s)"
proof -
  obtain r s g' where
    l: "buildAbiInterface_loop E abi [] (withProvider p g) = (r, withProvider p g')"
       "buildAbiInterface_loop E abi [] (withProvider q g) = (s, withProvider q g')"
       "isl r \<longleftrightarrow> isl s"
    using buildAbiInterface_loop_two_providers [OF assms] by blast
  then show ?thesis
    by (cases r; cases s) (auto simp: buildAbiInterface_def)
qed

text \<open>
  C8. One list of items, built once under each of the two supported providers from the same
  instance: both builds succeed or both fail, and they leave the same method names, the same
  event names and the same synthesized interfaces, hence the same name types in the output;
  the parameter list of every item is the same text under both. What differs is what the
  factories of the provider return.
\<close>

theorem provider_switch_keeps_names:
  "p_methodNames (snd (buildAbiInterface E abi (withProvider web3 g))) =
     p_methodNames (snd (buildAbiInterface E abi (withProvider ethers g)))
   \<and> p_events (snd (buildAbiInterface E abi (withProvider web3 g))) =
       p_events (snd (buildAbiInterface E abi (withProvider ethers g)))
   \<and> p_parametersAndReturnTypeInterfaces (snd (buildAbiInterface E abi (withProvider web3 g))) =
       p_parametersAndReturnTypeInterfaces (snd (buildAbiInterface E abi (withProvider ethers g)))
   \<and> isl (fst (buildAbiInterface E abi (withProvider web3 g))) =
       isl (fst (buildAbiInterface E abi (withProvider ethers g)))
   \<and> buildMethodNamesType E (snd (buildAbiInterface E abi (withProvider web3 g))) =
       buildMethodNamesType E (snd (buildAbiInterface E abi (withProvider ethers g)))
   \<and> buildEventsType E (snd (buildAbiInterface E abi (withProvider web3 g))) =
       buildEventsType E (snd (buildAbiInterface E abi (withProvider ethers g)))
   \<and> (\<forall>abiItem. fst (buildParameters E abiItem (withProvider web3 g)) =
                  fst (buildParameters E abiItem (withProvider ethers g)))"
proof -
  obtain r s g' where
    "buildAbiInterface E abi (withProvider web3 g) = (r, withProvider web3 g')"
    "buildAbiInterface E abi (withProvider ethers g) = (s, withProvider ethers g')"
    "isl r \<longleftrightarrow> isl s"
    using buildAbiInterface_two_providers [of web3 ethers E abi g]
    by (auto simp: supported_def)
  then show ?thesis
    by (simp add: buildMethodNamesType_def buildEventsType_def buildParameters_withProvider)
qed

section \<open>The names of the output\<close>

lemma concatInterfaces_eq: "concatInterfaces xs acc = acc @ concat xs"
  by (induction xs arbitrary: acc) simp_all

lemma buildParametersAndReturnTypes_wellFormed:
  assumes "supported (provider (p_context g))" and "itemWellFormed E x"
  shows "\<exists>t. fst (buildParametersAndReturnTypes E x g) = Inr t"
proof -
  obtain r ga where b: "buildParameters E x g = (r, ga)"
    by (cases "buildParameters E x g")
  have "\<exists>s. r = Inr s"
  proof (cases "inputs x")
    case None
    with b show ?thesis by (auto simp: buildParameters_def)
  next
    case (Some ins)
    with assms(2) have "inputsWellFormed E ins"
      by (simp add: itemWellFormed_def)
    from buildParameters_loop_wellFormed [OF this, of "item_name x" 0 "''(''" g] Some b
    show ?thesis by (auto simp: buildParameters_def)
  qed
  then obtain s where s: "r = Inr s" by blast
  have "p_context ga = p_context g"
    using buildParameters_frame [of g E x] b by (simp add: sameButInterfaces_def)
  with assms(1) have "supported (provider (p_context ga))" by simp
  then have ok: "\<exists>t. buildMethodReturnContext E
                        (ga\<lparr>p_parametersAndReturnTypeInterfaces := ifs\<rparr>) ty x = Inr t" for ty ifs
    by (intro buildMethodReturnContext_supported) simp
  have "\<exists>t. fst (buildPropertyReturnTypeInterface E x ga) = Inr t"
    using ok ok [where ifs = "p_parametersAndReturnTypeInterfaces ga"]
    by (simp add: buildPropertyReturnTypeInterface_def Let_def
          split: option.splits list.splits)
  with b s show ?thesis
    by (auto simp: buildParametersAndReturnTypes_def split: prod.splits sum.splits)
qed

lemma buildParametersAndReturnTypes_interfaces:
  assumes "supported (provider (p_context g))" and "itemWellFormed E x"
  shows "\<exists>t. buildParametersAndReturnTypes E x g =
           (Inr t,
            g\<lparr>p_parametersAndReturnTypeInterfaces :=
                 p_parametersAndReturnTypeInterfaces g @ itemInterfaces E x\<rparr>)"
proof -
  let ?req = "map (requestInterface E (item_name x))
                (filter (isTuple E) (case inputs x of None \<Rightarrow> [] | Some ins \<Rightarrow> ins))"
  let ?ga = "g\<lparr>p_parametersAndReturnTypeInterfaces :=
                  p_parametersAndReturnTypeInterfaces g @ ?req\<rparr>"
  have b: "\<exists>s. buildParameters E x g = (Inr s, ?ga)"
  proof (cases "inputs x")
    case None
    then show ?thesis by (simp add: buildParameters_def)
  next
    case (Some ins)
    with assms(2) have "inputsWellFormed E ins"
      by (simp add: itemWellFormed_def)
    from buildParameters_loop_wellFormed [OF this, of "item_name x" 0 "''(''" g] Some
    show ?thesis by (auto simp: buildParameters_def)
  qed
  then obtain s where s: "buildParameters E x g = (Inr s, ?ga)" by blast
  from assms(1) have "supported (provider (p_context ?ga))" by simp
  then have ok: "\<exists>t. buildMethodReturnContext E ?ga ty x = Inr t" for ty
    by (rule buildMethodReturnContext_supported)
  have "\<exists>t. buildPropertyReturnTypeInterface E x ?ga =
              (Inr t,
               g\<lparr>p_parametersAndReturnTypeInterfaces :=
                    p_parametersAndReturnTypeInterfaces g @ itemInterfaces E x\<rparr>)"
  proof (cases "outputs x")
    case None
    with ok [of "''void''"] show ?thesis
      by (auto simp: buildPropertyReturnTypeInterface_eq itemInterfaces_def)
  next
    case (Some outs)
    consider "outs = []" | "length outs = 1" | "2 \<le> length outs"
      by (cases outs; cases "tl outs") auto
    then show ?thesis
    proof cases
      case 1
      with Some ok [of "''void''"] show ?thesis
        by (auto simp: buildPropertyReturnTypeInterface_eq itemInterfaces_def)
    next
      case 2
      with Some ok [of "getSolidityTsType E (output_type (hd outs))"] show ?thesis
        by (auto simp: buildPropertyReturnTypeInterface_eq itemInterfaces_def)
    next
      case 3
      with Some ok [of "capitalize E (item_name x) @ ''Response''"] show ?thesis
        by (auto simp: buildPropertyReturnTypeInterface_eq itemInterfaces_def)
    qed
  qed
  with s show ?thesis
    by (auto simp: buildParametersAndReturnTypes_def)
qed

lemma buildAbiInterface_loop_names:
  assumes "supported (provider (p_context g))" and "abiWellFormed E abi"
  shows "\<exists>t g'. buildAbiInterface_loop E abi props g = (Inr t, g')
               \<and> p_methodNames g' = p_methodNames g @ methodNamesOf abi
               \<and> p_events g' = p_events g @ eventNamesOf abi
               \<and> p_parametersAndReturnTypeInterfaces g' =
                   p_parametersAndReturnTypeInterfaces g
                     @ concat (map (itemInterfaces E) (filter isCallable abi))
               \<and> p_context g' = p_context g"
  using assms
proof (induction abi arbitrary: props g)
  case Nil
  show ?case by (simp add: methodNamesOf_def eventNamesOf_def)
next
  case (Cons x xs)
  from Cons.prems(2) have wf: "abiWellFormed E xs"
    by (simp add: abiWellFormed_def split: if_splits)
  have callable:
    "\<exists>t g'. (case buildParametersAndReturnTypes E x ga of
                 (Inl e, gb) \<Rightarrow> (Inl e, gb)
               | (Inr r, gb) \<Rightarrow> buildAbiInterface_loop E xs (f r) gb) = (Inr t, g')
            \<and> p_methodNames g' = p_methodNames ga @ methodNamesOf xs
            \<and> p_events g' = p_events ga @ eventNamesOf xs
            \<and> p_parametersAndReturnTypeInterfaces g' =
                p_parametersAndReturnTypeInterfaces ga @ itemInterfaces E x
                  @ concat (map (itemInterfaces E) (filter isCallable xs))
            \<and> p_context g' = p_context ga"
    if c: "isCallable x" and s: "supported (provider (p_context ga))" for ga f
  proof -
    from c Cons.prems(2) have "itemWellFormed E x"
      by (simp add: abiWellFormed_def)
    from buildParametersAndReturnTypes_interfaces [OF s this]
    obtain r where b: "buildParametersAndReturnTypes E x ga =
        (Inr r, ga\<lparr>p_parametersAndReturnTypeInterfaces :=
                      p_parametersAndReturnTypeInterfaces ga @ itemInterfaces E x\<rparr>)"
      by blast
    let ?gb = "ga\<lparr>p_parametersAndReturnTypeInterfaces :=
                     p_parametersAndReturnTypeInterfaces ga @ itemInterfaces E x\<rparr>"
    from s have "supported (provider (p_context ?gb))" by simp
    from Cons.IH [OF this wf, of "f r"] b show ?thesis
      by auto
  qed
  show ?case
  proof (cases "item_type x")
    case AbiItemType_constructor
    then have c: "isCallable x" by (simp add: isCallable_def)
    from callable [OF c, where ga = "g\<lparr>p_methodNames := p_methodNames g @ [Some ''new'']\<rparr>"]
      Cons.prems(1) AbiItemType_constructor c
    show ?thesis
      by (simp add: Let_def methodNamesOf_def methodNameOf_def eventNamesOf_def)
  next
    case AbiItemType_function
    then have c: "isCallable x" by (simp add: isCallable_def)
    from callable [OF c, where ga = "g\<lparr>p_methodNames := p_methodNames g @ [item_name x]\<rparr>"]
      Cons.prems(1) AbiItemType_function c
    show ?thesis
      by (simp add: Let_def methodNamesOf_def methodNameOf_def eventNamesOf_def)
  next
    case AbiItemType_event
    then have c: "\<not> isCallable x" by (simp add: isCallable_def)
    from Cons.IH [of "g\<lparr>p_events := p_events g @ [item_name x]\<rparr>" props] Cons.prems(1) wf
      AbiItemType_event c
    show ?thesis
      by (simp add: methodNamesOf_def eventNamesOf_def)
  next
    case (AbiItemType_other u)
    then have c: "\<not> isCallable x" by (simp add: isCallable_def)
    from Cons.IH [of g props] Cons.prems(1) wf AbiItemType_other c
    show ?thesis
      by (simp add: methodNamesOf_def eventNamesOf_def)
  qed
qed

text \<open>
  C9. For a supported provider and every list of items whose composite inputs carry their
  components, the list may be empty or hold no function, constructor or event, the build
  succeeds, and its output is exactly, in this order: the preamble of the provider, one
  event-name type over the event names of the items, the events interface, one method-name
  type over the method names of the items (\<^verbatim>\<open>new\<close> for a constructor), the accumulated
  interfaces (the Request and Response interfaces of the constructors and functions, after
  those that the instance held), and the interface of the contract that
  \<open>buildAbiInterface\<close> returns. The names start from those that the instance holds, none
  for an instance with empty accumulators. No other name type is part of the output.
\<close>

theorem one_method_name_type_and_one_event_name_type:
  assumes "supported (provider (p_context g))" and "abiWellFormed E abi"
  shows "\<exists>properties g'.
           buildAbiInterface E abi g = (Inr (buildInterface E (getAbiName E g) properties), g')
         \<and> p_events g' = p_events g @ eventNamesOf abi
         \<and> p_methodNames g' = p_methodNames g @ methodNamesOf abi
         \<and> p_parametersAndReturnTypeInterfaces g' =
             p_parametersAndReturnTypeInterfaces g
               @ concat (map (itemInterfaces E) (filter isCallable abi))
         \<and> buildTypings E abi g =
             (Inr (providerPreamble E (provider (p_context g)) (getAbiName E g)
                   @ buildType E (getAbiName E g @ ''Events'') (p_events g @ eventNamesOf abi)
                   @ buildInterface E (getAbiName E g @ ''EventsContext'')
                       (providerEventProperties E (provider (p_context g)) abi)
                   @ buildType E (getAbiName E g @ ''MethodNames'')
                       (p_methodNames g @ methodNamesOf abi)
                   @ concat (p_parametersAndReturnTypeInterfaces g
                             @ concat (map (itemInterfaces E) (filter isCallable abi)))
                   @ buildInterface E (getAbiName E g) properties),
              g')"
proof -
  obtain t g' where l: "buildAbiInterface_loop E abi [] g = (Inr t, g')"
    and n: "p_methodNames g' = p_methodNames g @ methodNamesOf abi"
           "p_events g' = p_events g @ eventNamesOf abi"
           "p_parametersAndReturnTypeInterfaces g' =
              p_parametersAndReturnTypeInterfaces g
                @ concat (map (itemInterfaces E) (filter isCallable abi))"
    and c: "p_context g' = p_context g"
    using buildAbiInterface_loop_names [OF assms] by blast
  from c have nm: "getAbiName E g' = getAbiName E g"
    by (simp add: getAbiName_def getAbiFileLocationRawName_def)
  from assms(1) consider "provider (p_context g) = web3" | "provider (p_context g) = ethers"
    by (auto simp: supported_def)
  then have "buildAbiInterface E abi g = (Inr (buildInterface E (getAbiName E g) t), g')
         \<and> buildTypings E abi g =
             (Inr (providerPreamble E (provider (p_context g)) (getAbiName E g)
                   @ buildType E (getAbiName E g @ ''Events'') (p_events g @ eventNamesOf abi)
                   @ buildInterface E (getAbiName E g @ ''EventsContext'')
                       (providerEventProperties E (provider (p_context g)) abi)
                   @ buildType E (getAbiName E g @ ''MethodNames'')
                       (p_methodNames g @ methodNamesOf abi)
                   @ concat (p_parametersAndReturnTypeInterfaces g
                             @ concat (map (itemInterfaces E) (filter isCallable abi)))
                   @ buildInterface E (getAbiName E g) t),
              g')"
  proof cases
    case 1
    with l n c nm show ?thesis
      by (simp add: buildTypings_def buildAbiInterface_def buildFullTypings_def
            buildEventsInterface_def buildEventsType_def buildMethodNamesType_def
            buildParametersAndReturnTypeInterfaces_def concatInterfaces_eq
            providerPreamble_def providerEventProperties_def)
  next
    case 2
    with l n c nm show ?thesis
      by (simp add: buildTypings_def buildAbiInterface_def buildFullTypings_def
            buildEventsInterface_def buildEventsType_def buildMethodNamesType_def
            buildParametersAndReturnTypeInterfaces_def concatInterfaces_eq
            providerPreamble_def providerEventProperties_def)
  qed
  with n show ?thesis by blast
qed

theorem one_method_name_type_and_one_event_name_type_witness:
  "supported (provider (p_context (new_AbiGenerator (sample_context ethers))))
   \<and> abiWellFormed sample_imports [item_ctor, item_f, item_Transfer, item_fallback]
   \<and> (\<exists>properties.
         fst (buildTypings sample_imports [item_ctor, item_f, item_Transfer, item_fallback]
                (new_AbiGenerator (sample_context ethers))) =
           Inr (''export type ContractContext = EthersContractContext<Token>;''
                @ sample_buildType ''TokenEvents'' [Some ''Transfer'']
                @ sample_buildInterface ''TokenEventsContext'' ''Transfer(...args): EventFilter;''
                @ sample_buildType ''TokenMethodNames'' [Some ''new'', Some ''f'']
                @ ''export interface undefinedRequest {owner: string;}''
                @ sample_buildInterface ''Token'' properties))
   \<and> abiWellFormed sample_imports []
   \<and> (\<exists>properties.
         fst (buildTypings sample_imports [] (new_AbiGenerator (sample_context ethers))) =
           Inr (''export type ContractContext = EthersContractContext<Token>;''
                @ sample_buildType ''TokenEvents'' []
                @ sample_buildInterface ''TokenEventsContext'' []
                @ sample_buildType ''TokenMethodNames'' []
                @ sample_buildInterface ''Token'' properties))"
proof -
  let ?g = "new_AbiGenerator (sample_context ethers)"
  let ?abi = "[item_ctor, item_f, item_Transfer, item_fallback]"
  have s: "supported (provider (p_context ?g))"
    by (simp add: supported_def new_AbiGenerator_def sample_context_def)
  have wf: "abiWellFormed sample_imports ?abi"
    by (simp add: abiWellFormed_def itemWellFormed_def inputsWellFormed_def isCallable_def
          item_ctor_def item_f_def item_Transfer_def item_fallback_def sample_imports_def)
  have wf0: "abiWellFormed sample_imports []"
    by (simp add: abiWellFormed_def)
  have n: "getAbiName sample_imports ?g = ''Token''"
    by (simp add: getAbiName_def formatAbiName_def getAbiFileLocationRawName_def
          new_AbiGenerator_def sample_context_def sample_imports_def sample_basename_def
          upper_char_def)
  have names: "methodNamesOf ?abi = [Some ''new'', Some ''f'']"
    "eventNamesOf ?abi = [Some ''Transfer'']"
    "methodNamesOf [] = []" "eventNamesOf [] = []"
    by (simp_all add: methodNamesOf_def eventNamesOf_def methodNameOf_def isCallable_def
          item_ctor_def item_f_def item_Transfer_def item_fallback_def)
  have aux: "concat (map (itemInterfaces sample_imports) (filter isCallable ?abi)) =
               [''export interface undefinedRequest {owner: string;}'']"
    "concat (map (itemInterfaces sample_imports) (filter isCallable [])) = []"
    by (simp_all add: itemInterfaces_def requestInterface_def isTuple_def isCallable_def
          componentsOf_def inputField_def item_ctor_def item_f_def item_Transfer_def
          item_fallback_def sample_imports_def sample_buildInterface_def
          sample_getSolidityTsType_def)
  have p: "provider (p_context ?g) = ethers" "p_events ?g = []" "p_methodNames ?g = []"
    "p_parametersAndReturnTypeInterfaces ?g = []"
    by (simp_all add: new_AbiGenerator_def sample_context_def)
  have pre: "providerPreamble sample_imports ethers ''Token'' =
               ''export type ContractContext = EthersContractContext<Token>;''"
    "providerEventProperties sample_imports ethers ?abi = ''Transfer(...args): EventFilter;''"
    "providerEventProperties sample_imports ethers [] = []"
    "buildType sample_imports = sample_buildType"
    "buildInterface sample_imports = sample_buildInterface"
    by (simp_all add: providerPreamble_def providerEventProperties_def sample_imports_def
          sample_eventProperties_def item_ctor_def item_f_def item_Transfer_def
          item_fallback_def)
  from one_method_name_type_and_one_event_name_type [OF s wf]
  have a: "\<exists>properties.
         fst (buildTypings sample_imports ?abi ?g) =
           Inr (''export type ContractContext = EthersContractContext<Token>;''
                @ sample_buildType ''TokenEvents'' [Some ''Transfer'']
                @ sample_buildInterface ''TokenEventsContext'' ''Transfer(...args): EventFilter;''
                @ sample_buildType ''TokenMethodNames'' [Some ''new'', Some ''f'']
                @ ''export interface undefinedRequest {owner: string;}''
                @ sample_buildInterface ''Token'' properties)"
    unfolding n names p pre aux by auto
  from one_method_name_type_and_one_event_name_type [OF s wf0]
  have b: "\<exists>properties.
         fst (buildTypings sample_imports [] ?g) =
           Inr (''export type ContractContext = EthersContractContext<Token>;''
                @ sample_buildType ''TokenEvents'' []
                @ sample_buildInterface ''TokenEventsContext'' []
                @ sample_buildType ''TokenMethodNames'' []
                @ sample_buildInterface ''Token'' properties)"
    unfolding n names p pre aux by auto
  from a b s wf wf0 show ?thesis by blast
qed

section \<open>The errors of the builders\<close>

lemma buildMethodReturnContext_error:
  "buildMethodReturnContext E g ty abiItem = Inl e \<Longrightarrow> isBuildError e"
  by (auto simp: buildMethodReturnContext_def split: Provider.splits)

lemma buildTupleParametersInterface_error:
  "fst (buildTupleParametersInterface E nm x g) = Inl e \<Longrightarrow> isBuildError e"
  by (auto simp: buildTupleParametersInterface_def Let_def split: option.splits)

lemma buildParameters_loop_error:
  "fst (buildParameters_loop E nm i xs input g) = Inl e \<Longrightarrow> isBuildError e"
proof (induction xs arbitrary: i input g)
  case Nil
  then show ?case by simp
next
  case (Cons x xs)
  show ?case
  proof (cases "input_type x = SolidityType_tuple E")
    case False
    with Cons show ?thesis by (simp add: Let_def)
  next
    case True
    obtain r ga where t: "buildTupleParametersInterface E nm x g = (r, ga)"
      by (cases "buildTupleParametersInterface E nm x g")
    show ?thesis
    proof (cases r)
      case (Inl e')
      with True t Cons.prems buildTupleParametersInterface_error [of E nm x g e']
      show ?thesis by (simp add: Let_def)
    next
      case (Inr s)
      with True t Cons.prems Cons.IH show ?thesis by (simp add: Let_def)
    qed
  qed
qed

lemma buildParametersAndReturnTypes_error:
  assumes "fst (buildParametersAndReturnTypes E x g) = Inl e"
  shows "isBuildError e"
proof -
  obtain r ga where b: "buildParameters E x g = (r, ga)"
    by (cases "buildParameters E x g")
  show ?thesis
  proof (cases r)
    case (Inl e')
    have "isBuildError e'"
    proof (cases "inputs x")
      case None
      with b Inl show ?thesis by (simp add: buildParameters_def)
    next
      case (Some ins)
      with b Inl buildParameters_loop_error [of E "item_name x" 0 ins "''(''" g e']
      show ?thesis
        by (auto simp: buildParameters_def split: prod.splits sum.splits)
    qed
    with assms b Inl show ?thesis by (simp add: buildParametersAndReturnTypes_def)
  next
    case (Inr s)
    obtain r2 gb where q: "buildPropertyReturnTypeInterface E x ga = (r2, gb)"
      by (cases "buildPropertyReturnTypeInterface E x ga")
    with assms b Inr have r2: "r2 = Inl e"
      by (cases r2) (simp_all add: buildParametersAndReturnTypes_def)
    from q r2 show ?thesis
      by (auto simp: buildPropertyReturnTypeInterface_def Let_def
            split: option.splits list.splits dest: buildMethodReturnContext_error)
  qed
qed

lemma buildAbiInterface_loop_error:
  "fst (buildAbiInterface_loop E abi props g) = Inl e \<Longrightarrow> isBuildError e"
proof (induction abi arbitrary: props g)
  case Nil
  then show ?case by simp
next
  case (Cons x xs)
  have callable: "isBuildError e"
    if "fst (case buildParametersAndReturnTypes E x ga of
               (Inl e, gb) \<Rightarrow> (Inl e, gb)
             | (Inr r, gb) \<Rightarrow> buildAbiInterface_loop E xs (f r) gb) = Inl e" for ga f
  proof -
    obtain r gb where b: "buildParametersAndReturnTypes E x ga = (r, gb)"
      by (cases "buildParametersAndReturnTypes E x ga")
    show ?thesis
    proof (cases r)
      case (Inl e')
      with that b buildParametersAndReturnTypes_error [of E x ga e'] show ?thesis by simp
    next
      case (Inr s)
      with that b Cons.IH show ?thesis by simp
    qed
  qed
  from Cons.prems show ?case
    by (cases "item_type x") (auto simp: Let_def dest: callable Cons.IH)
qed

lemma buildTypings_error:
  assumes "fst (buildTypings E abi g) = Inl e"
  shows "isBuildError e"
proof -
  obtain r ga where l: "buildAbiInterface_loop E abi [] g = (r, ga)"
    by (cases "buildAbiInterface_loop E abi [] g")
  show ?thesis
  proof (cases r)
    case (Inl e')
    with assms l buildAbiInterface_loop_error [of E abi "[]" g e'] show ?thesis
      by (simp add: buildTypings_def buildAbiInterface_def)
  next
    case (Inr s)
    with assms l show ?thesis
      by (auto simp: buildTypings_def buildAbiInterface_def buildFullTypings_def
            buildEventsInterface_def Let_def split: Provider.splits)
  qed
qed

lemma abiItemsRead_error: "abiItemsRead E v = Inl e \<Longrightarrow> isBuildError e"
  by (cases v) (auto split: option.splits json.splits if_splits)

lemma buildTypings_unsupported:
  assumes "provider (p_context g) = unsupported u"
  shows "\<exists>e. fst (buildTypings E abi g) = Inl e"
proof -
  obtain r ga where l: "buildAbiInterface_loop E abi [] g = (r, ga)"
    by (cases "buildAbiInterface_loop E abi [] g")
  have "p_context ga = p_context g"
    using buildAbiInterface_loop_context [of E abi "[]" g] l by simp
  with assms l show ?thesis
    by (cases r) (simp_all add: buildTypings_def buildAbiInterface_def buildFullTypings_def)
qed
section \<open>The stages of generate\<close>

lemma clearQuotes_Nil [simp]: "clearQuotes [] = []"
  by (simp add: clearQuotes_def)

lemma clearAllQuotesFromContextInfo_context:
  "p_context (clearAllQuotesFromContextInfo g) =
     (p_context g)\<lparr>abiFileLocation := clearQuotes (abiFileLocation (p_context g)),
                   outputPathDirectory := map_option clearQuotes (outputPathDirectory (p_context g))\<rparr>"
proof (cases "outputPathDirectory (p_context g)")
  case None
  then show ?thesis by (simp add: clearAllQuotesFromContextInfo_def Let_def)
next
  case (Some d)
  then show ?thesis by (cases d) (simp_all add: clearAllQuotesFromContextInfo_def Let_def)
qed

lemma clearAllQuotesFromContextInfo_accumulators:
  "p_parametersAndReturnTypeInterfaces (clearAllQuotesFromContextInfo g) =
     p_parametersAndReturnTypeInterfaces g"
  "p_events (clearAllQuotesFromContextInfo g) = p_events g"
  "p_methodNames (clearAllQuotesFromContextInfo g) = p_methodNames g"
  by (simp_all add: clearAllQuotesFromContextInfo_def Let_def)

lemma readOnly_refl: "readOnly w w"
  by (simp add: readOnly_def)

lemma readOnly_trans: "readOnly w w1 \<Longrightarrow> readOnly w1 w2 \<Longrightarrow> readOnly w w2"
  by (auto simp: readOnly_def)

lemma isDirectory_readOnly: "readOnly w (snd (isDirectory w p))"
  by (auto simp: isDirectory_def existsSync_def lstatSync_isDirectory_def readOnly_def
        split: bool.splits)

lemma isDirectory_result:
  "fst (isDirectory w p) \<longleftrightarrow> p \<in> set (directories w)"
  by (simp add: isDirectory_def existsSync_def lstatSync_isDirectory_def split: bool.splits)

lemma isDirectory_log:
  assumes "isDirectory w p = (True, w')"
  shows "io_log w' = io_log w @ [ExistsSync p, LstatSync p]"
  using assms
  by (auto simp: isDirectory_def existsSync_def lstatSync_isDirectory_def
        split: bool.splits if_splits)

lemma getAbiJson_log:
  assumes "getAbiJson E g w = (Inr v, w')"
  shows "io_log w' =
           io_log w @ [ExistsSync (getAbiFileFullPathLocation E g),
                       ReadFileSync (getAbiFileFullPathLocation E g)]"
  using assms
  by (auto simp: getAbiJson_def existsSync_def readFileSync_def Let_def
        split: bool.splits option.splits if_splits)

lemma getAbiJson_readOnly: "readOnly w (snd (getAbiJson E g w))"
  by (auto simp: getAbiJson_def existsSync_def readFileSync_def readOnly_def Let_def
        split: bool.splits option.splits)

lemma getAbiJson_Inr:
  assumes "getAbiJson E g w = (Inr v, w')"
  shows "\<exists>content. files w (getAbiFileFullPathLocation E g) = Some content
                  \<and> JSON_parse E content = Some v"
    and "ReadFileSync (getAbiFileFullPathLocation E g) \<in> set (io_log w')"
  using assms
  by (auto simp: getAbiJson_def existsSync_def readFileSync_def Let_def
        split: bool.splits option.splits if_splits)

lemma getAbiJson_Inl:
  assumes "getAbiJson E g w = (Inl e, w')"
  shows "(e = AbiFileNotFound (getAbiFileFullPathLocation E g)
            \<and> files w (getAbiFileFullPathLocation E g) = None
            \<and> getAbiFileFullPathLocation E g \<notin> set (directories w))
       \<or> (e = AbiNotJsonFile (getAbiFileFullPathLocation E g)
            \<and> (case files w (getAbiFileFullPathLocation E g) of
                  None \<Rightarrow> getAbiFileFullPathLocation E g \<in> set (directories w)
                | Some content \<Rightarrow> JSON_parse E content = None))"
  using assms
  by (auto simp: getAbiJson_def existsSync_def readFileSync_def Let_def
        split: bool.splits option.splits if_splits)

lemma getAbiJson_not_parsed:
  assumes "files w (getAbiFileFullPathLocation E g) = Some content"
    and "JSON_parse E content = None"
  shows "fst (getAbiJson E g w) = Inl (AbiNotJsonFile (getAbiFileFullPathLocation E g))"
  using assms
  by (simp add: getAbiJson_def existsSync_def readFileSync_def Let_def)

lemma getAbiJson_parsed:
  assumes "files w (getAbiFileFullPathLocation E g) = Some content"
    and "JSON_parse E content = Some v"
  shows "fst (getAbiJson E g w) = Inr v"
  using assms
  by (simp add: getAbiJson_def existsSync_def readFileSync_def Let_def)

lemma formatTypings_effect:
  assumes "formatTypings E t g w = (r, g', w')"
  shows "p_context g' = (p_context g)\<lparr>prettierOptions := forceParser (prettierOptions (p_context g))\<rparr>"
    and "p_parametersAndReturnTypeInterfaces g' = p_parametersAndReturnTypeInterfaces g"
    and "p_events g' = p_events g" and "p_methodNames g' = p_methodNames g"
    and "readOnly w w'" and "io_log w' = io_log w"
    and "\<And>e. r = Inl e \<Longrightarrow> e = FormatError"
  using assms
  by (auto simp: formatTypings_def getPrettierOptions_def forceParser_def readOnly_def Let_def
        split: option.splits)

lemma writeTypings_effect:
  assumes "writeTypings E t g w = (r, g', w')"
  shows "p_context g' = (p_context g)\<lparr>watch := False\<rparr>"
    and "accumulatorsEmpty g'"
    and "files w' = (files w)(buildOutputLocation E g \<mapsto> t)"
    and "set (io_log w) \<subseteq> set (io_log w')"
  using assms
  by (auto simp: writeTypings_def watchForChanges_def clearState_def writeFileSync_def
        accumulatorsEmpty_def Let_def split: if_splits)

lemma generate_stages:
  fixes E g w
  defines "ga \<equiv> clearAllQuotesFromContextInfo g"
  obtains
    (notDirectory) wa where "isDirectory w (getOutputPathDirectory E ga) = (False, wa)"
      and "generate E g w = (Inl OutputPathNotDirectory, ga, wa)"
  | (notLoaded) wa e wb where "isDirectory w (getOutputPathDirectory E ga) = (True, wa)"
      and "getAbiJson E ga wa = (Inl e, wb)"
      and "generate E g w = (Inl e, ga, wb)"
  | (notRead) wa v wb e where "isDirectory w (getOutputPathDirectory E ga) = (True, wa)"
      and "getAbiJson E ga wa = (Inr v, wb)" and "abiItemsRead E v = Inl e"
      and "generate E g w = (Inl e, ga, wb)"
  | (notBuilt) wa v wb abi e gb where "isDirectory w (getOutputPathDirectory E ga) = (True, wa)"
      and "getAbiJson E ga wa = (Inr v, wb)" and "abiItemsRead E v = Inr abi"
      and "buildTypings E abi ga = (Inl e, gb)"
      and "generate E g w = (Inl e, gb, wb)"
  | (notFormatted) wa v wb abi t gb e gc wc
    where "isDirectory w (getOutputPathDirectory E ga) = (True, wa)"
      and "getAbiJson E ga wa = (Inr v, wb)" and "abiItemsRead E v = Inr abi"
      and "buildTypings E abi ga = (Inr t, gb)"
      and "formatTypings E t gb wb = (Inl e, gc, wc)"
      and "generate E g w = (Inl e, gc, wc)"
  | (written) wa v wb abi t gb tf gc wc r gd wd
    where "isDirectory w (getOutputPathDirectory E ga) = (True, wa)"
      and "getAbiJson E ga wa = (Inr v, wb)" and "abiItemsRead E v = Inr abi"
      and "buildTypings E abi ga = (Inr t, gb)"
      and "formatTypings E t gb wb = (Inr tf, gc, wc)"
      and "writeTypings E tf gc wc = (r, gd, wd)"
      and "generate E g w = (Inr r, gd, wd)"
proof -
  obtain b wa where d: "isDirectory w (getOutputPathDirectory E ga) = (b, wa)"
    by (cases "isDirectory w (getOutputPathDirectory E ga)")
  show ?thesis
  proof (cases b)
    case False
    with d show ?thesis
      by (intro notDirectory [of wa]) (simp_all add: generate_def ga_def Let_def)
  next
    case True
    obtain rj wb where j: "getAbiJson E ga wa = (rj, wb)"
      by (cases "getAbiJson E ga wa")
    show ?thesis
    proof (cases rj)
      case (Inl e)
      with d True j show ?thesis
        by (intro notLoaded [of wa e wb]) (simp_all add: generate_def ga_def Let_def)
    next
      case (Inr v)
      note v = Inr
      show ?thesis
      proof (cases "abiItemsRead E v")
        case (Inl e)
        with d True j v show ?thesis
          by (intro notRead [of wa v wb e]) (simp_all add: generate_def ga_def Let_def)
      next
        case (Inr abi)
        note abi = Inr
        obtain rb gb where b: "buildTypings E abi ga = (rb, gb)"
          by (cases "buildTypings E abi ga")
        show ?thesis
        proof (cases rb)
          case (Inl e)
          with d True j v abi b show ?thesis
            by (intro notBuilt [of wa v wb abi e gb]) (simp_all add: generate_def ga_def Let_def)
        next
          case (Inr t)
          note t = Inr
          obtain rf gc wc where f: "formatTypings E t gb wb = (rf, gc, wc)"
            by (cases "formatTypings E t gb wb")
          show ?thesis
          proof (cases rf)
            case (Inl e)
            with d True j v abi b t f show ?thesis
              by (intro notFormatted [of wa v wb abi t gb e gc wc])
                 (simp_all add: generate_def ga_def Let_def)
          next
            case (Inr tf)
            obtain r gd wd where wr: "writeTypings E tf gc wc = (r, gd, wd)"
              by (cases "writeTypings E tf gc wc")
            with Inr d True j v abi b t f show ?thesis
              by (intro written [of wa v wb abi t gb tf gc wc r gd wd])
                 (simp_all add: generate_def ga_def Let_def)
          qed
        qed
      qed
    qed
  qed
qed

section \<open>Failing runs\<close>

lemma generate_failure_readOnly:
  assumes "isl (fst (generate E g w))"
  shows "readOnly w (snd (snd (generate E g w)))"
proof (cases rule: generate_stages [where E = E and g = g and w = w])
  case (notDirectory wa)
  with isDirectory_readOnly [of w "getOutputPathDirectory E (clearAllQuotesFromContextInfo g)"]
  show ?thesis by simp
next
  case (notLoaded wa e wb)
  with isDirectory_readOnly [of w "getOutputPathDirectory E (clearAllQuotesFromContextInfo g)"]
    getAbiJson_readOnly [of wa E "clearAllQuotesFromContextInfo g"]
  show ?thesis by (auto intro: readOnly_trans)
next
  case (notRead wa v wb e)
  with isDirectory_readOnly [of w "getOutputPathDirectory E (clearAllQuotesFromContextInfo g)"]
    getAbiJson_readOnly [of wa E "clearAllQuotesFromContextInfo g"]
  show ?thesis by (auto intro: readOnly_trans)
next
  case (notBuilt wa v wb abi e gb)
  with isDirectory_readOnly [of w "getOutputPathDirectory E (clearAllQuotesFromContextInfo g)"]
    getAbiJson_readOnly [of wa E "clearAllQuotesFromContextInfo g"]
  show ?thesis by (auto intro: readOnly_trans)
next
  case (notFormatted wa v wb abi t gb e gc wc)
  with isDirectory_readOnly [of w "getOutputPathDirectory E (clearAllQuotesFromContextInfo g)"]
    getAbiJson_readOnly [of wa E "clearAllQuotesFromContextInfo g"]
    formatTypings_effect(5) [of E t gb wb "Inl e" gc wc]
  show ?thesis by (auto intro: readOnly_trans)
next
  case (written wa v wb abi t gb tf gc wc r gd wd)
  with assms show ?thesis by simp
qed

text \<open>
  C1, as the code has it. With a valid output directory and an ABI file that can be read:
  when the text of the file does not parse, \<^verbatim>\<open>generate\<close> aborts with the error for a
  file that is not JSON and writes nothing; when the text parses, to an array or to any other
  JSON value, \<^verbatim>\<open>generate\<close> never aborts with that error.
\<close>

theorem source_format_error_iff_not_parsed:
  assumes "getOutputPathDirectory E (clearAllQuotesFromContextInfo g) \<in> set (directories w)"
    and "files w (getAbiFileFullPathLocation E (clearAllQuotesFromContextInfo g)) = Some content"
  shows "(JSON_parse E content = None \<longrightarrow>
            fst (generate E g w) =
              Inl (AbiNotJsonFile (getAbiFileFullPathLocation E (clearAllQuotesFromContextInfo g)))
            \<and> readOnly w (snd (snd (generate E g w))))
       \<and> (\<forall>v. JSON_parse E content = Some v \<longrightarrow> \<not> isSourceFormatError (fst (generate E g w)))"
proof -
  let ?ga = "clearAllQuotesFromContextInfo g"
  have dir: "fst (isDirectory w (getOutputPathDirectory E ?ga))"
    using assms(1) by (simp add: isDirectory_result)
  have same: "files wa (getAbiFileFullPathLocation E ?ga) = Some content"
    if "isDirectory w (getOutputPathDirectory E ?ga) = (b, wa)" for b wa
    using isDirectory_readOnly [of w "getOutputPathDirectory E ?ga"] that assms(2)
    by (simp add: readOnly_def)
  show ?thesis
  proof (cases rule: generate_stages [where E = E and g = g and w = w])
    case (notDirectory wa)
    with dir show ?thesis by simp
  next
    case (notLoaded wa e wb)
    from getAbiJson_Inl [OF notLoaded(2)] same [OF notLoaded(1)]
    have e: "e = AbiNotJsonFile (getAbiFileFullPathLocation E ?ga)"
      and n: "JSON_parse E content = None"
      by auto
    have "isl (fst (generate E g w))"
      using notLoaded(3) by simp
    from generate_failure_readOnly [OF this] e n notLoaded(3) show ?thesis by simp
  next
    case (notRead wa v wb e)
    from getAbiJson_Inr(1) [OF notRead(2)] same [OF notRead(1)]
    have "JSON_parse E content = Some v" by simp
    moreover have "isBuildError e"
      using notRead(3) by (rule abiItemsRead_error)
    ultimately show ?thesis
      using notRead(4) by (cases e) simp_all
  next
    case (notBuilt wa v wb abi e gb)
    from getAbiJson_Inr(1) [OF notBuilt(2)] same [OF notBuilt(1)]
    have "JSON_parse E content = Some v" by simp
    moreover have "isBuildError e"
      using buildTypings_error [of E abi ?ga e] notBuilt(4) by simp
    ultimately show ?thesis
      using notBuilt(5) by (cases e) simp_all
  next
    case (notFormatted wa v wb abi t gb e gc wc)
    from getAbiJson_Inr(1) [OF notFormatted(2)] same [OF notFormatted(1)]
    have "JSON_parse E content = Some v" by simp
    moreover have "e = FormatError"
      using formatTypings_effect(7) [OF notFormatted(5)] by simp
    ultimately show ?thesis
      using notFormatted(6) by simp
  next
    case (written wa v wb abi t gb tf gc wc r gd wd)
    from getAbiJson_Inr(1) [OF written(2)] same [OF written(1)]
    have "JSON_parse E content = Some v" by simp
    then show ?thesis
      using written(7) by simp
  qed
qed

theorem source_format_error_iff_not_parsed_witness:
  "getOutputPathDirectory sample_imports
     (clearAllQuotesFromContextInfo (new_AbiGenerator (sample_context web3)))
     \<in> set (directories (sample_world ''not json''))
   \<and> files (sample_world ''not json'')
       (getAbiFileFullPathLocation sample_imports
          (clearAllQuotesFromContextInfo (new_AbiGenerator (sample_context web3)))) =
       Some ''not json''
   \<and> JSON_parse sample_imports ''not json'' = None
   \<and> fst (generate sample_imports (new_AbiGenerator (sample_context web3))
             (sample_world ''not json'')) =
       Inl (AbiNotJsonFile ''/abi/token.json'')
   \<and> files (snd (snd (generate sample_imports (new_AbiGenerator (sample_context web3))
                        (sample_world ''not json'')))) =
       files (sample_world ''not json'')"
proof -
  let ?g = "new_AbiGenerator (sample_context web3)"
  let ?w = "sample_world ''not json''"
  have p: "getAbiFileFullPathLocation sample_imports (clearAllQuotesFromContextInfo ?g) =
             ''/abi/token.json''"
    by code_simp
  have d: "getOutputPathDirectory sample_imports (clearAllQuotesFromContextInfo ?g)
             \<in> set (directories ?w)"
    by code_simp
  have f: "files ?w (getAbiFileFullPathLocation sample_imports (clearAllQuotesFromContextInfo ?g)) =
             Some ''not json''"
    unfolding p by (simp add: sample_world_def)
  have n: "JSON_parse sample_imports ''not json'' = None"
    by code_simp
  from source_format_error_iff_not_parsed [OF d f] n
  have "fst (generate sample_imports ?g ?w) =
          Inl (AbiNotJsonFile (getAbiFileFullPathLocation sample_imports
                                 (clearAllQuotesFromContextInfo ?g)))
        \<and> readOnly ?w (snd (snd (generate sample_imports ?g ?w)))"
    by blast
  then show ?thesis
    using d f n unfolding p by (simp add: readOnly_def)
qed

text \<open>
  C1, as the claim states it, fails: the text \<^verbatim>\<open>{}\<close> parses to an object, which is not an
  array, and \<^verbatim>\<open>generate\<close> does not abort with the error for a file that is not JSON.
\<close>

theorem json_object_is_not_rejected:
  "JSON_parse sample_imports ''{}'' = Some (JObject [])
   \<and> \<not> isSourceFormatError
         (fst (generate sample_imports (new_AbiGenerator (sample_context web3))
                 (sample_world ''{}'')))"
  by code_simp

section \<open>An unsupported provider\<close>

lemma buildParametersAndReturnTypes_unsupported:
  assumes "provider (p_context g) = unsupported u" and "itemWellFormed E x"
  shows "fst (buildParametersAndReturnTypes E x g) = Inl (ProviderNotSupported (unsupported u))"
proof -
  obtain r ga where b: "buildParameters E x g = (r, ga)"
    by (cases "buildParameters E x g")
  have "\<exists>s. r = Inr s"
  proof (cases "inputs x")
    case None
    with b show ?thesis by (auto simp: buildParameters_def)
  next
    case (Some ins)
    with assms(2) have "inputsWellFormed E ins"
      by (simp add: itemWellFormed_def)
    from buildParameters_loop_wellFormed [OF this, of "item_name x" 0 "''(''" g] Some b
    show ?thesis by (auto simp: buildParameters_def)
  qed
  then obtain s where s: "r = Inr s" by blast
  have "p_context ga = p_context g"
    using buildParameters_frame [of g E x] b by (simp add: sameButInterfaces_def)
  with assms(1) have
    "buildMethodReturnContext E (ga\<lparr>p_parametersAndReturnTypeInterfaces := ifs\<rparr>) ty x =
       Inl (ProviderNotSupported (unsupported u))" for ty ifs
    by (simp add: buildMethodReturnContext_def)
  from this this [where ifs = "p_parametersAndReturnTypeInterfaces ga"]
  have "fst (buildPropertyReturnTypeInterface E x ga) = Inl (ProviderNotSupported (unsupported u))"
    by (simp add: buildPropertyReturnTypeInterface_def Let_def split: option.splits list.splits)
  with b s show ?thesis
    by (auto simp: buildParametersAndReturnTypes_def split: prod.splits sum.splits)
qed

lemma buildAbiInterface_loop_unsupported:
  assumes "provider (p_context g) = unsupported u" and "abiWellFormed E abi"
    and "fst (buildAbiInterface_loop E abi props g) = Inl e"
  shows "e = ProviderNotSupported (unsupported u)"
  using assms
proof (induction abi arbitrary: props g)
  case Nil
  then show ?case by simp
next
  case (Cons x xs)
  from Cons.prems(2) have wf: "abiWellFormed E xs"
    by (simp add: abiWellFormed_def split: if_splits)
  have callable: "e = ProviderNotSupported (unsupported u)"
    if "isCallable x" and "provider (p_context ga) = unsupported u"
      and "fst (case buildParametersAndReturnTypes E x ga of
                  (Inl e, gb) \<Rightarrow> (Inl e, gb)
                | (Inr r, gb) \<Rightarrow> buildAbiInterface_loop E xs (f r) gb) = Inl e" for ga f
  proof -
    from that(1) Cons.prems(2) have "itemWellFormed E x"
      by (simp add: abiWellFormed_def)
    from buildParametersAndReturnTypes_unsupported [OF that(2) this] that(3)
    show ?thesis
      by (cases "buildParametersAndReturnTypes E x ga") auto
  qed
  show ?case
  proof (cases "item_type x")
    case AbiItemType_constructor
    with callable [where ga = "g\<lparr>p_methodNames := p_methodNames g @ [Some ''new'']\<rparr>"] Cons.prems
    show ?thesis by (simp add: Let_def isCallable_def)
  next
    case AbiItemType_function
    with callable [where ga = "g\<lparr>p_methodNames := p_methodNames g @ [item_name x]\<rparr>"]
      Cons.prems
    show ?thesis by (simp add: Let_def isCallable_def)
  next
    case AbiItemType_event
    with Cons.IH [of "g\<lparr>p_events := p_events g @ [item_name x]\<rparr>" props] Cons.prems wf
    show ?thesis by simp
  next
    case (AbiItemType_other t)
    with Cons.IH [of g props] Cons.prems wf show ?thesis by simp
  qed
qed

lemma buildTypings_unsupported_wellFormed:
  assumes "provider (p_context g) = unsupported u" and "abiWellFormed E abi"
  shows "fst (buildTypings E abi g) = Inl (ProviderNotSupported (unsupported u))"
proof -
  obtain r ga where l: "buildAbiInterface_loop E abi [] g = (r, ga)"
    by (cases "buildAbiInterface_loop E abi [] g")
  have c: "p_context ga = p_context g"
    using buildAbiInterface_loop_context [of E abi "[]" g] l by simp
  show ?thesis
  proof (cases r)
    case (Inl e)
    with buildAbiInterface_loop_unsupported [OF assms, of "[]" e] l show ?thesis
      by (simp add: buildTypings_def buildAbiInterface_def)
  next
    case (Inr t)
    with l c assms(1) show ?thesis
      by (simp add: buildTypings_def buildAbiInterface_def buildFullTypings_def)
  qed
qed

text \<open>
  C4, as the code has it. With a provider that is not one of the two known values,
  \<^verbatim>\<open>generate\<close> always fails and writes no file. The provider is looked at only by the
  builders: when the error is the one for the provider, the output directory has been
  checked and the ABI file has been read before, these four calls of \<^verbatim>\<open>fs\<close> being all
  that the run has added to the log; and it is that error whenever the output directory is a
  directory and the ABI file parses to an array of items whose composite inputs carry their
  components.
\<close>

theorem unsupported_provider_fails_after_reading:
  assumes "provider (p_context g) = unsupported u"
  shows "isl (fst (generate E g w))
       \<and> readOnly w (snd (snd (generate E g w)))
       \<and> (\<forall>p. fst (generate E g w) = Inl (ProviderNotSupported p) \<longrightarrow>
              ReadFileSync (getAbiFileFullPathLocation E (clearAllQuotesFromContextInfo g))
                \<in> set (io_log (snd (snd (generate E g w)))))
       \<and> (\<forall>p. fst (generate E g w) = Inl (ProviderNotSupported p) \<longrightarrow>
              io_log (snd (snd (generate E g w))) =
                io_log w
                  @ [ExistsSync (getOutputPathDirectory E (clearAllQuotesFromContextInfo g)),
                     LstatSync (getOutputPathDirectory E (clearAllQuotesFromContextInfo g)),
                     ExistsSync (getAbiFileFullPathLocation E (clearAllQuotesFromContextInfo g)),
                     ReadFileSync (getAbiFileFullPathLocation E (clearAllQuotesFromContextInfo g))])
       \<and> (\<forall>content abi.
              getOutputPathDirectory E (clearAllQuotesFromContextInfo g) \<in> set (directories w)
              \<and> files w (getAbiFileFullPathLocation E (clearAllQuotesFromContextInfo g)) = Some content
              \<and> JSON_parse E content = Some (JArray abi) \<and> abiWellFormed E abi \<longrightarrow>
              fst (generate E g w) = Inl (ProviderNotSupported (unsupported u)))"
proof -
  let ?ga = "clearAllQuotesFromContextInfo g"
  have u: "provider (p_context ?ga) = unsupported u"
    using assms by (simp add: clearAllQuotesFromContextInfo_context)
  have fails: "isl (fst (generate E g w))"
  proof (cases rule: generate_stages [where E = E and g = g and w = w])
    case (notFormatted wa v wb abi t gb e gc wc)
    then show ?thesis by simp
  next
    case (written wa v wb abi t gb tf gc wc r gd wd)
    with buildTypings_unsupported [OF u, of E abi] show ?thesis by simp
  qed simp_all
  have read: "ReadFileSync (getAbiFileFullPathLocation E ?ga)
                \<in> set (io_log (snd (snd (generate E g w))))"
    if "fst (generate E g w) = Inl (ProviderNotSupported p)" for p
  proof (cases rule: generate_stages [where E = E and g = g and w = w])
    case (notDirectory wa)
    with that show ?thesis by simp
  next
    case (notLoaded wa e wb)
    with that getAbiJson_Inl [OF notLoaded(2)] show ?thesis by auto
  next
    case (notRead wa v wb e)
    with getAbiJson_Inr(2) [OF notRead(2)] show ?thesis by simp
  next
    case (notBuilt wa v wb abi e gb)
    with getAbiJson_Inr(2) [OF notBuilt(2)] show ?thesis by simp
  next
    case (notFormatted wa v wb abi t gb e gc wc)
    with that formatTypings_effect(7) [OF notFormatted(5)] show ?thesis by simp
  next
    case (written wa v wb abi t gb tf gc wc r gd wd)
    with that show ?thesis by simp
  qed
  have log: "io_log (snd (snd (generate E g w))) =
               io_log w @ [ExistsSync (getOutputPathDirectory E ?ga),
                           LstatSync (getOutputPathDirectory E ?ga),
                           ExistsSync (getAbiFileFullPathLocation E ?ga),
                           ReadFileSync (getAbiFileFullPathLocation E ?ga)]"
    if "fst (generate E g w) = Inl (ProviderNotSupported p)" for p
  proof (cases rule: generate_stages [where E = E and g = g and w = w])
    case (notDirectory wa)
    with that show ?thesis by simp
  next
    case (notLoaded wa e wb)
    with that getAbiJson_Inl [OF notLoaded(2)] show ?thesis by auto
  next
    case (notRead wa v wb e)
    with isDirectory_log [OF notRead(1)] getAbiJson_log [OF notRead(2)] show ?thesis by simp
  next
    case (notBuilt wa v wb abi e gb)
    with isDirectory_log [OF notBuilt(1)] getAbiJson_log [OF notBuilt(2)] show ?thesis by simp
  next
    case (notFormatted wa v wb abi t gb e gc wc)
    with that formatTypings_effect(7) [OF notFormatted(5)] show ?thesis by simp
  next
    case (written wa v wb abi t gb tf gc wc r gd wd)
    with that show ?thesis by simp
  qed
  have provider_error: "fst (generate E g w) = Inl (ProviderNotSupported (unsupported u))"
    if d: "getOutputPathDirectory E ?ga \<in> set (directories w)"
      and f: "files w (getAbiFileFullPathLocation E ?ga) = Some content"
      and j: "JSON_parse E content = Some (JArray abi)" and wf: "abiWellFormed E abi"
    for content abi
  proof -
    have dir: "fst (isDirectory w (getOutputPathDirectory E ?ga))"
      using d by (simp add: isDirectory_result)
    have same: "files wa (getAbiFileFullPathLocation E ?ga) = Some content"
      if "isDirectory w (getOutputPathDirectory E ?ga) = (b, wa)" for b wa
      using isDirectory_readOnly [of w "getOutputPathDirectory E ?ga"] that f
      by (simp add: readOnly_def)
    show ?thesis
    proof (cases rule: generate_stages [where E = E and g = g and w = w])
      case (notDirectory wa)
      with dir show ?thesis by simp
    next
      case (notLoaded wa e wb)
      with getAbiJson_Inl [OF notLoaded(2)] same [OF notLoaded(1)] j show ?thesis by auto
    next
      case (notRead wa v wb e)
      with getAbiJson_Inr(1) [OF notRead(2)] same [OF notRead(1)] j show ?thesis by auto
    next
      case (notBuilt wa v wb abi' e gb)
      from getAbiJson_Inr(1) [OF notBuilt(2)] same [OF notBuilt(1)] j notBuilt(3)
      have "abi' = abi" by auto
      with buildTypings_unsupported_wellFormed [OF u wf] notBuilt show ?thesis by simp
    next
      case (notFormatted wa v wb abi' t gb e gc wc)
      with buildTypings_unsupported [OF u, of E abi'] show ?thesis by simp
    next
      case (written wa v wb abi' t gb tf gc wc r gd wd)
      with buildTypings_unsupported [OF u, of E abi'] show ?thesis by simp
    qed
  qed
  from fails generate_failure_readOnly [OF fails] read log provider_error show ?thesis
    by blast
qed

theorem unsupported_provider_fails_after_reading_witness:
  "provider (p_context (new_AbiGenerator (sample_context (unsupported ''truffle'')))) =
     unsupported ''truffle''
   \<and> fst (generate sample_imports (new_AbiGenerator (sample_context (unsupported ''truffle'')))
            (sample_world text_f)) =
       Inl (ProviderNotSupported (unsupported ''truffle''))
   \<and> files (snd (snd (generate sample_imports
                        (new_AbiGenerator (sample_context (unsupported ''truffle'')))
                        (sample_world text_f)))) =
       files (sample_world text_f)
   \<and> ReadFileSync ''/abi/token.json''
       \<in> set (io_log (snd (snd (generate sample_imports
                                   (new_AbiGenerator (sample_context (unsupported ''truffle'')))
                                   (sample_world text_f)))))"
proof -
  let ?g = "new_AbiGenerator (sample_context (unsupported ''truffle''))"
  let ?w = "sample_world text_f"
  have u: "provider (p_context ?g) = unsupported ''truffle''"
    by (simp add: new_AbiGenerator_def sample_context_def)
  have p: "getAbiFileFullPathLocation sample_imports (clearAllQuotesFromContextInfo ?g) =
             ''/abi/token.json''"
    by code_simp
  have e: "fst (generate sample_imports ?g ?w) =
             Inl (ProviderNotSupported (unsupported ''truffle''))"
    by code_simp
  from unsupported_provider_fails_after_reading [OF u, of sample_imports ?w] e
  have "readOnly ?w (snd (snd (generate sample_imports ?g ?w)))
        \<and> ReadFileSync (getAbiFileFullPathLocation sample_imports (clearAllQuotesFromContextInfo ?g))
            \<in> set (io_log (snd (snd (generate sample_imports ?g ?w))))"
    by blast
  then show ?thesis
    using u e unfolding p by (simp add: readOnly_def)
qed

text \<open>
  C4, as the claim states it, fails: with an unknown provider, a valid output directory and a
  valid ABI file, the error for the provider is raised after the calls of \<^verbatim>\<open>fs\<close> that
  check the directory and read the ABI file.
\<close>

theorem provider_error_raised_after_file_access:
  "fst (generate sample_imports (new_AbiGenerator (sample_context (unsupported ''truffle'')))
          (sample_world text_f)) =
     Inl (ProviderNotSupported (unsupported ''truffle''))
   \<and> io_log (snd (snd (generate sample_imports
                         (new_AbiGenerator (sample_context (unsupported ''truffle'')))
                         (sample_world text_f)))) =
       [ExistsSync ''/out'', LstatSync ''/out'', ExistsSync ''/abi/token.json'',
        ReadFileSync ''/abi/token.json'']"
  by code_simp

section \<open>The accumulators between runs\<close>

lemma generate_returns_empty:
  assumes "generate E g w = (Inr r, g', w')"
  shows "accumulatorsEmpty g'"
proof (cases rule: generate_stages [where E = E and g = g and w = w])
  case (written wa v wb abi t gb tf gc wc r' gd wd)
  with assms writeTypings_effect(2) [OF written(6)] show ?thesis by simp
qed (use assms in simp_all)

text \<open>
  C3, as the code has it. The accumulators are empty when the instance is constructed, and
  \<^verbatim>\<open>generate\<close> empties them before it returns; it does not empty them when it starts,
  nor when it leaves by a throw. So in a sequence of calls on one instance that starts with
  empty accumulators, every call whose predecessors all returned starts with empty
  accumulators, and leaves them empty if it returns itself.
\<close>

theorem accumulators_empty_while_runs_return:
  assumes "accumulatorsEmpty g"
  shows "\<forall>i < length (runs E g ws).
           (\<forall>j < i. \<not> isl (fst (snd (runs E g ws ! j)))) \<longrightarrow>
             accumulatorsEmpty (fst (runs E g ws ! i))
             \<and> (\<not> isl (fst (snd (runs E g ws ! i))) \<longrightarrow>
                  accumulatorsEmpty (snd (snd (runs E g ws ! i))))"
  using assms
proof (induction ws arbitrary: g)
  case Nil
  show ?case by simp
next
  case (Cons w ws)
  obtain r g' w' where gen: "generate E g w = (r, g', w')"
    by (cases "generate E g w") auto
  have after: "accumulatorsEmpty g'" if "\<not> isl r"
  proof -
    from that obtain x where "r = Inr x" by (cases r) auto
    with gen show ?thesis by (auto dest: generate_returns_empty)
  qed
  show ?case
  proof (intro allI impI)
    fix i
    assume i: "i < length (runs E g (w # ws))"
      and before: "\<forall>j < i. \<not> isl (fst (snd (runs E g (w # ws) ! j)))"
    show "accumulatorsEmpty (fst (runs E g (w # ws) ! i))
          \<and> (\<not> isl (fst (snd (runs E g (w # ws) ! i))) \<longrightarrow>
               accumulatorsEmpty (snd (snd (runs E g (w # ws) ! i))))"
    proof (cases i)
      case 0
      with gen Cons.prems after show ?thesis by simp
    next
      case (Suc k)
      from before Suc gen have first: "\<not> isl r" by auto
      from before Suc gen have rest: "\<forall>j < k. \<not> isl (fst (snd (runs E g' ws ! j)))" by auto
      from i Suc gen have k: "k < length (runs E g' ws)" by simp
      from Cons.IH [OF after [OF first]] k rest Suc gen show ?thesis by simp
    qed
  qed
qed

theorem accumulators_empty_while_runs_return_witness:
  "accumulatorsEmpty (new_AbiGenerator (sample_context web3))
   \<and> map (\<lambda>(g, r, g'). (accumulatorsEmpty g, isl r, accumulatorsEmpty g'))
       (runs sample_imports (new_AbiGenerator (sample_context web3))
          [sample_world text_f, sample_world text_Transfer]) =
     [(True, False, True), (True, False, True)]"
proof -
  let ?g = "new_AbiGenerator (sample_context web3)"
  let ?ws = "[sample_world text_f, sample_world text_Transfer]"
  have e: "accumulatorsEmpty ?g"
    by (simp add: accumulatorsEmpty_def new_AbiGenerator_def)
  have len: "length (runs sample_imports ?g ?ws) = 2"
    by (simp split: prod.splits)
  have ret: "map (\<lambda>(g, r, g'). isl r) (runs sample_imports ?g ?ws) = [False, False]"
    by code_simp
  then have r: "\<not> isl (fst (snd (runs sample_imports ?g ?ws ! 0)))"
    "\<not> isl (fst (snd (runs sample_imports ?g ?ws ! 1)))"
    by (auto simp: map_eq_Cons_conv split: prod.splits)
  from accumulators_empty_while_runs_return [OF e, of sample_imports ?ws] len r
  have "accumulatorsEmpty (fst (runs sample_imports ?g ?ws ! 0))
        \<and> accumulatorsEmpty (snd (snd (runs sample_imports ?g ?ws ! 0)))
        \<and> accumulatorsEmpty (fst (runs sample_imports ?g ?ws ! 1))
        \<and> accumulatorsEmpty (snd (snd (runs sample_imports ?g ?ws ! 1)))"
    by (auto simp: less_Suc_eq numeral_2_eq_2)
  with ret e show ?thesis
    by (auto simp: map_eq_Cons_conv split: prod.splits)
qed

text \<open>
  C3, as the claim states it, fails: a call that leaves \<^verbatim>\<open>generate\<close> by a throw keeps
  what the builders have accumulated, here the method name \<^verbatim>\<open>f\<close> under a provider that
  is not supported, and the next call on the instance starts from it.
\<close>

theorem accumulators_kept_after_failed_run:
  "map (\<lambda>(g, r, g'). (p_methodNames g, isl r, p_methodNames g'))
     (runs sample_imports (new_AbiGenerator (sample_context (unsupported ''truffle'')))
        [sample_world text_f, sample_world text_f]) =
   [([], True, [Some ''f'']), ([Some ''f''], True, [Some ''f'', Some ''f''])]"
  by code_simp

section \<open>The context after a run\<close>






end
